theory Spec2Isabelle
  imports Main "HOL-Library.Word"
begin

unbundle bit_operations_syntax

section \<open>Data model of the ACPI parser (AcpiParser.c)\<close>

text \<open>
  Machine integers are words of the width the source declares: \<open>UINT8\<close> is \<open>8 word\<close>,
  \<open>UINT32\<close> is \<open>32 word\<close>, so \<open>+\<close> and \<open>-\<close> wrap as they do in C. A pointer into the
  table buffer is an address (a natural number) and memory is a function from addresses
  to bytes; the parser never writes to it. \<open>UINTN\<close> loop counters that are bounded by a
  \<open>UINT32\<close> are natural numbers.
\<close>

type_synonym u8 = "8 word"
type_synonym u32 = "32 word"
type_synonym addr = nat
type_synonym memory = "addr \<Rightarrow> u8"

text \<open>
  The \<open>AsciiName\<close> handed to \<open>ParseAcpi\<close> is either a string constant of the caller or the
  buffer that \<open>PrintAcpiStructName\<close> fills with the format \<open>"%a [%d]"\<close>; the second is kept
  symbolic (name and index).
\<close>

datatype ascii = Ascii string | AcpiStructName string u32

text \<open>
  The static pointer variables that descriptor tables name in their \<open>ItemPtr\<close> column
  (\<open>VOID**\<close>). The named ones are those of MadtParser.c and PpttParser.c; \<open>Item n\<close> stands
  for any other such variable.
\<close>

datatype item =
    MadtInterruptControllerType
  | MadtInterruptControllerLength
  | ProcessorTopologyStructureType
  | ProcessorTopologyStructureLength
  | NumberOfPrivateResources
  | Item nat

text \<open>
  The console: every \<open>Print\<close> call of the source is one event, carrying the arguments
  the call prints.
  \<^item> \<open>ChecksumOK\<close>: \<open>"Table Checksum : OK"\<close>; \<open>ChecksumFailed c\<close>: \<open>"Table Checksum : FAILED (0x%X)"\<close>
  \<^item> \<open>SectionHeader i w n\<close>: the section header \<open>"%*a%-*a :"\<close> of \<open>ParseAcpi\<close>
  \<^item> \<open>FieldLabel i w n\<close>: \<open>PrintFieldName\<close>, \<open>"%*a%-*s : "\<close>
  \<^item> \<open>OffsetMismatch a n cur decl\<close>: \<open>"ERROR: %a: Offset Mismatch for %s CurrentOffset = %d FieldOffset = %d"\<close>
  \<^item> \<open>DumpValue fmt v\<close>: \<open>Print (Format, value)\<close> of \<open>DumpUint8/16/32/64\<close>
  \<^item> \<open>DumpChars fmt bs\<close>: \<open>Print\<close> of \<open>Dump3Chars\<close> and its siblings
  \<^item> \<open>CannotParse a l\<close>: \<open>"ERROR: %a: CANNOT PARSE THIS FIELD, Field Length = %d"\<close>
  \<^item> \<open>NewLine\<close>: \<open>Print (L"\n")\<close>
  \<^item> \<open>StructOffset off\<close>: \<open>Print (L"0x%x\n", Offset)\<close> of \<open>ParseAcpiStruct\<close>
  \<^item> \<open>UnknownType n t\<close>: \<open>"ERROR: Unknown %a. Type = %d"\<close>
  \<^item> \<open>NotImplemented n\<close>: \<open>"ERROR: Parsing of %a Structure is not implemented"\<close>
  \<^item> \<open>TableBreakdown\<close>: \<open>"Table Breakdown:"\<close>; \<open>InstanceCount i w n c\<close>: \<open>"%*a%-*a : %d"\<close>
  \<^item> \<open>NotValidForArch n c\<close>: \<open>"ERROR: %a Structure is not valid for the target architecture (found %d)"\<close>
  \<^item> \<open>InsufficientLength n l\<close>: \<open>"ERROR: Insufficient remaining table buffer length to read the %a header. Length = %d."\<close>
  \<^item> \<open>InvalidLength n l off tl\<close>: \<open>"ERROR: Invalid %a length. Length = %d. Offset = %d. AcpiTableLength = %d."\<close>
  \<^item> \<open>OnlyOne n\<close>: \<open>"ERROR: Only one %a must be present"\<close>
  \<^item> \<open>Message m\<close>: text printed by a validator
\<close>

datatype event =
    ChecksumOK
  | ChecksumFailed u8
  | SectionHeader u32 u32 ascii
  | FieldLabel u32 u32 "string option"
  | OffsetMismatch "ascii option" "string option" u32 u32
  | DumpValue string nat
  | DumpChars string "u8 list"
  | CannotParse "ascii option" u32
  | NewLine
  | StructOffset u32
  | UnknownType string u32
  | NotImplemented string
  | TableBreakdown
  | InstanceCount u32 u32 string u32
  | NotValidForArch string u32
  | InsufficientLength string u32
  | InvalidLength string u8 u32 u32
  | OnlyOne string
  | Message string

text \<open>
  The file-scope variables \<open>gIndent\<close>, \<open>mTableErrorCount\<close> and \<open>mTableWarningCount\<close>, the
  console (\<open>gST->ConOut\<close>: its current attribute and what was printed), and the contents
  of the static pointer variables (\<open>None\<close> is \<open>NULL\<close>). Every function of the source that
  reads or writes one of them takes the state and returns the new one.

  The \<open>ASSERT\<close> macros of the source state what a caller must provide (non-null pointers,
  a database whose entries stand in type order). They print nothing and change nothing and
  have no counterpart here; where a statement below depends on one, it is a hypothesis.
\<close>

record acpi_state =
  gIndent :: u32
  mTableErrorCount :: u32
  mTableWarningCount :: u32
  ConOutAttribute :: nat
  ConOut :: "event list"
  items :: "item \<Rightarrow> addr option"

text \<open>
  What AcpiView.h and AcpiParser.h (not part of the sources at hand) fix for one run: the
  two option flags read by \<open>GetConsistencyChecking\<close> and \<open>GetColourHighlighting\<close>, the
  build target (\<open>MDE_CPU_ARM\<close> or \<open>MDE_CPU_AARCH64\<close> defined), and the constants
  \<open>ARCH_COMPAT_ARM\<close>, \<open>ARCH_COMPAT_AARCH64\<close>, \<open>OUTPUT_FIELD_COLUMN_WIDTH\<close> and
  \<open>INSTANCE_COUNT_INDENT\<close>. They are parameters of the model.
\<close>

record acpi_view =
  GetConsistencyChecking :: bool
  GetColourHighlighting :: bool
  MDE_CPU_ARM :: bool
  ARCH_COMPAT_ARM :: u32
  ARCH_COMPAT_AARCH64 :: u32
  OUTPUT_FIELD_COLUMN_WIDTH :: u32
  INSTANCE_COUNT_INDENT :: u32

subsection \<open>Counters and console\<close>

definition ResetErrorCount :: "acpi_state \<Rightarrow> acpi_state" where
  "ResetErrorCount s = s\<lparr>mTableErrorCount := 0\<rparr>"

definition GetErrorCount :: "acpi_state \<Rightarrow> u32" where
  "GetErrorCount s = mTableErrorCount s"

definition ResetWarningCount :: "acpi_state \<Rightarrow> acpi_state" where
  "ResetWarningCount s = s\<lparr>mTableWarningCount := 0\<rparr>"

definition GetWarningCount :: "acpi_state \<Rightarrow> u32" where
  "GetWarningCount s = mTableWarningCount s"

definition IncrementErrorCount :: "acpi_state \<Rightarrow> acpi_state" where
  "IncrementErrorCount s = s\<lparr>mTableErrorCount := mTableErrorCount s + 1\<rparr>"

definition IncrementWarningCount :: "acpi_state \<Rightarrow> acpi_state" where
  "IncrementWarningCount s = s\<lparr>mTableWarningCount := mTableWarningCount s + 1\<rparr>"

definition Print :: "event \<Rightarrow> acpi_state \<Rightarrow> acpi_state" where
  "Print e s = s\<lparr>ConOut := ConOut s @ [e]\<rparr>"

definition SetAttribute :: "nat \<Rightarrow> acpi_state \<Rightarrow> acpi_state" where
  "SetAttribute a s = s\<lparr>ConOutAttribute := a\<rparr>"

text \<open>
  \<open>EFI_TEXT_ATTR (fg, bg)\<close> is \<open>fg | (bg << 4)\<close>; the colour codes are those of the UEFI
  console protocol. \<open>Highlight c a\<close> is the attribute the source computes from a colour and
  the original attribute \<open>a\<close>: \<open>EFI_TEXT_ATTR (c, (a & (BIT4|BIT5|BIT6)) >> 4)\<close>.
\<close>

definition EFI_GREEN :: nat where "EFI_GREEN = 2"
definition EFI_RED :: nat where "EFI_RED = 4"
definition EFI_YELLOW :: nat where "EFI_YELLOW = 14"

definition EFI_TEXT_ATTR :: "nat \<Rightarrow> nat \<Rightarrow> nat" where
  "EFI_TEXT_ATTR fg bg = fg OR push_bit 4 bg"

definition Highlight :: "nat \<Rightarrow> nat \<Rightarrow> nat" where
  "Highlight c a = EFI_TEXT_ATTR c (drop_bit 4 (a AND 112))"

subsection \<open>VerifyChecksum\<close>

text \<open>
  The summing loop: \<open>while (ByteCount < Length) { Checksum += *(Ptr++); ByteCount++; }\<close>
  with \<open>Checksum\<close> a \<open>UINT8\<close>.
\<close>

function VerifyChecksum_loop :: "memory \<Rightarrow> u32 \<Rightarrow> addr \<Rightarrow> nat \<Rightarrow> u8 \<Rightarrow> u8" where
  "VerifyChecksum_loop mem Len Ptr ByteCount Checksum =
     (if ByteCount < unat Len
      then VerifyChecksum_loop mem Len (Ptr + 1) (ByteCount + 1) (Checksum + mem Ptr)
      else Checksum)"
  by pat_completeness auto
termination
  by (relation "measure (\<lambda>(mem, Len, Ptr, ByteCount, Checksum). unat Len - ByteCount)") auto

declare VerifyChecksum_loop.simps [simp del]

definition VerifyChecksum ::
  "acpi_view \<Rightarrow> bool \<Rightarrow> memory \<Rightarrow> addr \<Rightarrow> u32 \<Rightarrow> acpi_state \<Rightarrow> bool \<times> acpi_state" where
  "VerifyChecksum cfg Log mem Ptr Len s =
     (let Checksum = VerifyChecksum_loop mem Len Ptr 0 0;
          s' =
            (if Log then
               (let OriginalAttribute = ConOutAttribute s;
                    s1 =
                      (if Checksum = 0 then
                         Print ChecksumOK
                           (if GetColourHighlighting cfg
                            then SetAttribute (Highlight EFI_GREEN OriginalAttribute) s
                            else s)
                       else
                         (let e = IncrementErrorCount s in
                          Print (ChecksumFailed Checksum)
                            (if GetColourHighlighting cfg
                             then SetAttribute (Highlight EFI_RED OriginalAttribute) e
                             else e)))
                in if GetColourHighlighting cfg then SetAttribute OriginalAttribute s1 else s1)
             else s)
      in (Checksum = 0, s'))"

subsection \<open>Field descriptors (ACPI_PARSER) and the default renderers\<close>

text \<open>
  One row of a descriptor table. \<open>NameStr\<close>, \<open>Format\<close>, \<open>ItemPtr\<close> and \<open>Context\<close> may be
  \<open>NULL\<close> (\<open>None\<close>). The two function pointers are functions of the run's settings, the
  memory, their C arguments and the parser's global state; \<open>None\<close> is \<open>NULL\<close>. The
  \<open>ParserItems\<close> argument that accompanies a descriptor array is the length of the list.
\<close>

record acpi_parser =
  NameStr :: "string option"
  Length :: u32
  Offset :: u32
  Format :: "string option"
  PrintFormatter ::
    "(acpi_view \<Rightarrow> memory \<Rightarrow> string option \<Rightarrow> addr \<Rightarrow> acpi_state \<Rightarrow> acpi_state) option"
  ItemPtr :: "item option"
  FieldValidator ::
    "(acpi_view \<Rightarrow> memory \<Rightarrow> addr \<Rightarrow> addr option \<Rightarrow> acpi_state \<Rightarrow> acpi_state) option"
  Context :: "addr option"

text \<open>Little-endian reads \<open>*(UINT16*)Ptr\<close> and \<open>*(UINT32*)Ptr\<close>.\<close>

definition read_UINT16 :: "memory \<Rightarrow> addr \<Rightarrow> nat" where
  "read_UINT16 mem Ptr = unat (mem Ptr) + 256 * unat (mem (Ptr + 1))"

definition read_UINT32 :: "memory \<Rightarrow> addr \<Rightarrow> nat" where
  "read_UINT32 mem Ptr = read_UINT16 mem Ptr + 65536 * read_UINT16 mem (Ptr + 2)"

definition DumpUint8 :: "string \<Rightarrow> memory \<Rightarrow> addr \<Rightarrow> acpi_state \<Rightarrow> acpi_state" where
  "DumpUint8 fmt mem Ptr s = Print (DumpValue fmt (unat (mem Ptr))) s"

definition DumpUint16 :: "string \<Rightarrow> memory \<Rightarrow> addr \<Rightarrow> acpi_state \<Rightarrow> acpi_state" where
  "DumpUint16 fmt mem Ptr s = Print (DumpValue fmt (read_UINT16 mem Ptr)) s"

definition DumpUint32 :: "string \<Rightarrow> memory \<Rightarrow> addr \<Rightarrow> acpi_state \<Rightarrow> acpi_state" where
  "DumpUint32 fmt mem Ptr s = Print (DumpValue fmt (read_UINT32 mem Ptr)) s"

definition DumpUint64 :: "string \<Rightarrow> memory \<Rightarrow> addr \<Rightarrow> acpi_state \<Rightarrow> acpi_state" where
  "DumpUint64 fmt mem Ptr s =
     (let Val = read_UINT32 mem (Ptr + 4);
          Val = push_bit 32 Val;
          Val = Val OR read_UINT32 mem Ptr
      in Print (DumpValue fmt Val) s)"

definition Dump3Chars ::
  "acpi_view \<Rightarrow> memory \<Rightarrow> string option \<Rightarrow> addr \<Rightarrow> acpi_state \<Rightarrow> acpi_state" where
  "Dump3Chars cfg mem fmt Ptr s =
     Print (DumpChars (case fmt of Some f \<Rightarrow> f | None \<Rightarrow> ''%c%c%c'')
              [mem Ptr, mem (Ptr + 1), mem (Ptr + 2)]) s"

definition PrintFieldName :: "acpi_view \<Rightarrow> u32 \<Rightarrow> string option \<Rightarrow> acpi_state \<Rightarrow> acpi_state" where
  "PrintFieldName cfg Indent FieldName s =
     Print (FieldLabel (gIndent s + Indent)
              (OUTPUT_FIELD_COLUMN_WIDTH cfg - gIndent s - Indent) FieldName) s"

definition PrintAcpiStructName :: "string \<Rightarrow> u32 \<Rightarrow> ascii" where
  "PrintAcpiStructName Nam Index = AcpiStructName Nam Index"

subsection \<open>ParseAcpi\<close>

text \<open>
  The body of \<open>if (Trace) { ... }\<close> for one field that lies inside the buffer: the field
  name, then the formatter if there is one, else the format through the width switch
  followed by the validator, then the line break.
\<close>

definition TraceField ::
  "acpi_view \<Rightarrow> memory \<Rightarrow> ascii option \<Rightarrow> addr \<Rightarrow> acpi_parser \<Rightarrow> acpi_state \<Rightarrow> acpi_state" where
  "TraceField cfg mem AsciiName Ptr p s =
     (let s1 = PrintFieldName cfg 2 (NameStr p) s;
          s2 =
            (case PrintFormatter p of
               Some formatter \<Rightarrow> formatter cfg mem (Format p) Ptr s1
             | None \<Rightarrow>
                 (case Format p of
                    Some fmt \<Rightarrow>
                      (let s3 =
                             (if Length p = 1 then DumpUint8 fmt mem Ptr s1
                              else if Length p = 2 then DumpUint16 fmt mem Ptr s1
                              else if Length p = 4 then DumpUint32 fmt mem Ptr s1
                              else if Length p = 8 then DumpUint64 fmt mem Ptr s1
                              else Print (CannotParse AsciiName (Length p)) s1)
                       in (if GetConsistencyChecking cfg then
                             (case FieldValidator p of
                                Some validator \<Rightarrow> validator cfg mem Ptr (Context p) s3
                              | None \<Rightarrow> s3)
                           else s3))
                  | None \<Rightarrow> s1))
      in Print NewLine s2)"

definition set_item :: "item option \<Rightarrow> addr option \<Rightarrow> acpi_state \<Rightarrow> acpi_state" where
  "set_item ip v s = (case ip of None \<Rightarrow> s | Some i \<Rightarrow> s\<lparr>items := (items s)(i := v)\<rparr>)"

text \<open>
  The \<open>for\<close> loop over the descriptor array, with the running \<open>Ptr\<close> and \<open>Offset\<close>.
  \<open>set_item (ItemPtr p) v\<close> is \<open>if (Parser[Index].ItemPtr != NULL) *Parser[Index].ItemPtr = v\<close>.
\<close>

fun ParseAcpi_loop ::
  "acpi_view \<Rightarrow> memory \<Rightarrow> bool \<Rightarrow> ascii option \<Rightarrow> u32 \<Rightarrow> acpi_parser list \<Rightarrow>
   addr \<Rightarrow> u32 \<Rightarrow> acpi_state \<Rightarrow> u32 \<times> acpi_state" where
  "ParseAcpi_loop cfg mem Trace AsciiName Len [] Ptr Off s = (Off, s)"
| "ParseAcpi_loop cfg mem Trace AsciiName Len (p # Parser) Ptr Off s =
     (if Off + Length p > Len then
        ParseAcpi_loop cfg mem Trace AsciiName Len Parser Ptr Off (set_item (ItemPtr p) None s)
      else
        (let s1 =
               (if GetConsistencyChecking cfg \<and> Off \<noteq> Offset p
                then Print (OffsetMismatch AsciiName (NameStr p) Off (Offset p))
                       (IncrementErrorCount s)
                else s);
             s2 = (if Trace then TraceField cfg mem AsciiName Ptr p s1 else s1);
             s3 = set_item (ItemPtr p) (Some Ptr) s2
         in ParseAcpi_loop cfg mem Trace AsciiName Len Parser
              (Ptr + unat (Length p)) (Off + Length p) s3))"

text \<open>
  The block \<open>if (Trace && (AsciiName != NULL)) { ... }\<close> at the start of \<open>ParseAcpi\<close>, which
  prints the name of the table as a heading, in yellow when highlighting is on.
\<close>

definition ParseAcpi_header :: "acpi_view \<Rightarrow> bool \<Rightarrow> ascii option \<Rightarrow> acpi_state \<Rightarrow> acpi_state" where
  "ParseAcpi_header cfg Trace AsciiName s =
     (case AsciiName of
        Some n \<Rightarrow>
          (if Trace then
             (let HighLight = GetColourHighlighting cfg;
                  OriginalAttribute = (if HighLight then ConOutAttribute s else 0);
                  s1 = (if HighLight
                        then SetAttribute (Highlight EFI_YELLOW OriginalAttribute) s
                        else s);
                  s2 = Print (SectionHeader (gIndent s1)
                                (OUTPUT_FIELD_COLUMN_WIDTH cfg - gIndent s1) n) s1
              in if HighLight then SetAttribute OriginalAttribute s2 else s2)
           else s)
      | None \<Rightarrow> s)"

text \<open>
  \<open>ParseAcpi\<close>: \<open>gIndent += Indent\<close>, the heading, the loop from \<open>Offset = 0\<close>,
  \<open>gIndent -= Indent\<close>, and the final \<open>Offset\<close> as the result.
\<close>

definition ParseAcpi ::
  "acpi_view \<Rightarrow> memory \<Rightarrow> bool \<Rightarrow> u32 \<Rightarrow> ascii option \<Rightarrow> addr \<Rightarrow> u32 \<Rightarrow> acpi_parser list \<Rightarrow>
   acpi_state \<Rightarrow> u32 \<times> acpi_state" where
  "ParseAcpi cfg mem Trace Indent AsciiName Ptr Len Parser s =
     (let s1 = s\<lparr>gIndent := gIndent s + Indent\<rparr>;
          s2 = ParseAcpi_header cfg Trace AsciiName s1;
          r = ParseAcpi_loop cfg mem Trace AsciiName Len Parser Ptr 0 s2
      in (fst r, (snd r)\<lparr>gIndent := gIndent (snd r) - Indent\<rparr>))"

subsection \<open>The structure database\<close>

text \<open>
  \<open>ACPI_STRUCT_INFO\<close> and \<open>ACPI_STRUCT_DATABASE\<close>. A handler holds a parser function, a
  descriptor array (with its element count, the length of the list), or neither. A parser
  function receives \<open>Ptr\<close>, \<open>Length\<close>, \<open>OptArg0\<close> and \<open>OptArg1\<close> and, like the formatters and
  validators, acts on the parser's global state; the database itself is handed to
  \<open>ParseAcpiStruct\<close> by its caller and only \<open>ParseAcpiStruct\<close> and \<open>ResetAcpiStructCounts\<close>
  write to it.
\<close>

record acpi_struct_handler =
  ParserFunc ::
    "(acpi_view \<Rightarrow> memory \<Rightarrow> addr \<Rightarrow> u32 \<Rightarrow> addr option \<Rightarrow> addr option \<Rightarrow>
      acpi_state \<Rightarrow> acpi_state) option"
  ParserArray :: "acpi_parser list option"

record acpi_struct_info =
  Name :: string
  Type :: u32
  CompatArch :: u32
  Count :: u32
  Handler :: acpi_struct_handler

record acpi_struct_database =
  Name :: string
  Entries :: "acpi_struct_info list"
  EntryCount :: u32

text \<open>\<open>StructDb->Entries[Type]\<close> and the assignment to its \<open>Count\<close>.\<close>

definition entry :: "acpi_struct_database \<Rightarrow> u32 \<Rightarrow> acpi_struct_info" where
  "entry StructDb Ty = Entries StructDb ! unat Ty"

definition set_Count :: "u32 \<Rightarrow> u32 \<Rightarrow> acpi_struct_database \<Rightarrow> acpi_struct_database" where
  "set_Count Ty c StructDb =
     StructDb\<lparr>Entries := (Entries StructDb)[unat Ty := (entry StructDb Ty)\<lparr>Count := c\<rparr>]\<rparr>"

function ResetAcpiStructCounts_loop :: "u32 \<Rightarrow> acpi_struct_database \<Rightarrow> acpi_struct_database" where
  "ResetAcpiStructCounts_loop Ty StructDb =
     (if Ty < EntryCount StructDb
      then ResetAcpiStructCounts_loop (Ty + 1) (set_Count Ty 0 StructDb)
      else StructDb)"
  by pat_completeness auto
termination
  apply (relation "measure (\<lambda>(Ty, StructDb). unat (EntryCount StructDb - Ty))")
   apply simp
  apply (simp add: set_Count_def, unat_arith)
  done

declare ResetAcpiStructCounts_loop.simps [simp del]

definition ResetAcpiStructCounts :: "acpi_struct_database \<Rightarrow> acpi_struct_database" where
  "ResetAcpiStructCounts StructDb = ResetAcpiStructCounts_loop 0 StructDb"

definition IsAcpiStructTypeValid :: "acpi_view \<Rightarrow> u32 \<Rightarrow> acpi_struct_database \<Rightarrow> bool" where
  "IsAcpiStructTypeValid cfg Ty StructDb =
     (if Ty \<ge> EntryCount StructDb then False
      else
        (let Compatible =
               (if MDE_CPU_ARM cfg
                then CompatArch (entry StructDb Ty) AND
                       (ARCH_COMPAT_ARM cfg OR ARCH_COMPAT_AARCH64 cfg)
                else CompatArch (entry StructDb Ty))
         in Compatible \<noteq> 0))"

function ValidateAcpiStructCounts_loop ::
  "acpi_view \<Rightarrow> acpi_struct_database \<Rightarrow> u32 \<Rightarrow> bool \<Rightarrow> acpi_state \<Rightarrow> bool \<times> acpi_state" where
  "ValidateAcpiStructCounts_loop cfg StructDb Ty AllValid s =
     (if Ty < EntryCount StructDb then
        (if IsAcpiStructTypeValid cfg Ty StructDb then
           ValidateAcpiStructCounts_loop cfg StructDb (Ty + 1) AllValid
             (Print (InstanceCount (INSTANCE_COUNT_INDENT cfg)
                       (OUTPUT_FIELD_COLUMN_WIDTH cfg - INSTANCE_COUNT_INDENT cfg)
                       (acpi_struct_info.Name (entry StructDb Ty))
                       (Count (entry StructDb Ty))) s)
         else if Count (entry StructDb Ty) > 0 then
           ValidateAcpiStructCounts_loop cfg StructDb (Ty + 1) False
             (Print (NotValidForArch (acpi_struct_info.Name (entry StructDb Ty))
                       (Count (entry StructDb Ty)))
                (IncrementErrorCount s))
         else ValidateAcpiStructCounts_loop cfg StructDb (Ty + 1) AllValid s)
      else (AllValid, s))"
  by pat_completeness auto
termination
  apply (relation "measure (\<lambda>(cfg, StructDb, Ty, AllValid, s). unat (EntryCount StructDb - Ty))")
     apply simp
    apply (simp, unat_arith)
   apply (simp, unat_arith)
  apply (simp, unat_arith)
  done

declare ValidateAcpiStructCounts_loop.simps [simp del]

definition ValidateAcpiStructCounts ::
  "acpi_view \<Rightarrow> acpi_struct_database \<Rightarrow> acpi_state \<Rightarrow> bool \<times> acpi_state" where
  "ValidateAcpiStructCounts cfg StructDb s =
     ValidateAcpiStructCounts_loop cfg StructDb 0 True (Print TableBreakdown s)"

definition ParseAcpiStruct ::
  "acpi_view \<Rightarrow> memory \<Rightarrow> u32 \<Rightarrow> addr \<Rightarrow> acpi_struct_database \<Rightarrow> u32 \<Rightarrow> u32 \<Rightarrow> u32 \<Rightarrow>
   addr option \<Rightarrow> addr option \<Rightarrow> acpi_state \<Rightarrow> bool \<times> acpi_struct_database \<times> acpi_state" where
  "ParseAcpiStruct cfg mem Indent Ptr StructDb Off Ty Len OptArg0 OptArg1 s =
     (let s1 = Print (StructOffset Off) (PrintFieldName cfg Indent (Some ''* Offset *'') s)
      in if Ty \<ge> EntryCount StructDb then
           (False, StructDb, Print (UnknownType (Name StructDb) Ty) (IncrementErrorCount s1))
         else
           (case ParserFunc (Handler (entry StructDb Ty)) of
              Some func \<Rightarrow>
                (True, set_Count Ty (Count (entry StructDb Ty) + 1) StructDb,
                 func cfg mem Ptr Len OptArg0 OptArg1 s1)
            | None \<Rightarrow>
                (case ParserArray (Handler (entry StructDb Ty)) of
                   Some array \<Rightarrow>
                     (True, set_Count Ty (Count (entry StructDb Ty) + 1) StructDb,
                      snd (ParseAcpi cfg mem True Indent
                             (Some (PrintAcpiStructName
                                      (acpi_struct_info.Name (entry StructDb Ty))
                                      (Count (entry StructDb Ty))))
                             Ptr Len array s1))
                 | None \<Rightarrow>
                     (False, set_Count Ty (Count (entry StructDb Ty) + 1) StructDb,
                      Print (NotImplemented (acpi_struct_info.Name (entry StructDb Ty))) s1))))"

subsection \<open>The MADT parser (MadtParser.c)\<close>

text \<open>A row of a descriptor table, in the column order of the C initialisers.\<close>

definition ACPI_PARSER ::
  "string option \<Rightarrow> u32 \<Rightarrow> u32 \<Rightarrow> string option \<Rightarrow>
   (acpi_view \<Rightarrow> memory \<Rightarrow> string option \<Rightarrow> addr \<Rightarrow> acpi_state \<Rightarrow> acpi_state) option \<Rightarrow>
   item option \<Rightarrow>
   (acpi_view \<Rightarrow> memory \<Rightarrow> addr \<Rightarrow> addr option \<Rightarrow> acpi_state \<Rightarrow> acpi_state) option \<Rightarrow>
   addr option \<Rightarrow> acpi_parser" where
  "ACPI_PARSER n l off fmt formatter ip validator ctx =
     \<lparr>NameStr = n, Length = l, Offset = off, Format = fmt, PrintFormatter = formatter,
      ItemPtr = ip, FieldValidator = validator, Context = ctx\<rparr>"

definition ValidateGICDSystemVectorBase ::
  "acpi_view \<Rightarrow> memory \<Rightarrow> addr \<Rightarrow> addr option \<Rightarrow> acpi_state \<Rightarrow> acpi_state" where
  "ValidateGICDSystemVectorBase cfg mem Ptr ctx s =
     (if read_UINT32 mem Ptr \<noteq> 0
      then Print (Message ''ERROR: System Vector Base must be zero.'') (IncrementErrorCount s)
      else s)"

definition GicDParser :: "acpi_parser list" where
  "GicDParser =
     [ACPI_PARSER (Some ''Type'') 1 0 (Some ''0x%x'') None None None None,
      ACPI_PARSER (Some ''Length'') 1 1 (Some ''%d'') None None None None,
      ACPI_PARSER (Some ''Reserved'') 2 2 (Some ''0x%x'') None None None None,
      ACPI_PARSER (Some ''GIC ID'') 4 4 (Some ''0x%x'') None None None None,
      ACPI_PARSER (Some ''Physical Base Address'') 8 8 (Some ''0x%lx'') None None None None,
      ACPI_PARSER (Some ''System Vector Base'') 4 16 (Some ''0x%x'') None None
        (Some ValidateGICDSystemVectorBase) None,
      ACPI_PARSER (Some ''GIC Version'') 1 20 (Some ''%d'') None None None None,
      ACPI_PARSER (Some ''Reserved'') 3 21 (Some ''%x %x %x'') (Some Dump3Chars) None None None]"

definition MadtInterruptControllerHeaderParser :: "acpi_parser list" where
  "MadtInterruptControllerHeaderParser =
     [ACPI_PARSER None 1 0 None None (Some MadtInterruptControllerType) None None,
      ACPI_PARSER (Some ''Length'') 1 1 None None (Some MadtInterruptControllerLength) None None,
      ACPI_PARSER (Some ''Reserved'') 2 2 None None None None None]"

text \<open>
  The \<open>while (Offset < AcpiTableLength)\<close> loop of \<open>ParseAcpiMadt\<close>. The result is \<open>None\<close>
  when the loop does not return; the flag of a result tells whether the loop ran to its
  end (\<open>True\<close>) or the function returned from inside it (\<open>False\<close>). \<open>Offset + *Length\<close> is
  a \<open>UINT32\<close> sum. After the dispatch the source reads \<open>*MadtInterruptControllerLength\<close>
  again; were the pointer \<open>NULL\<close> by then, the read would not return.
\<close>

partial_function (option) ParseAcpiMadt_loop ::
  "acpi_view \<Rightarrow> memory \<Rightarrow> u32 \<Rightarrow> addr \<Rightarrow> u32 \<Rightarrow> acpi_struct_database \<Rightarrow> acpi_state \<Rightarrow>
   (bool \<times> acpi_struct_database \<times> acpi_state) option" where
  "ParseAcpiMadt_loop cfg mem AcpiTableLength InterruptContollerPtr Off MadtDatabase s =
     (if Off < AcpiTableLength then
        (let s1 = snd (ParseAcpi cfg mem False 0 None InterruptContollerPtr
                         (AcpiTableLength - Off) MadtInterruptControllerHeaderParser s)
         in case items s1 MadtInterruptControllerType of
              None \<Rightarrow>
                Some (False, MadtDatabase,
                      Print (InsufficientLength (Name MadtDatabase) (AcpiTableLength - Off))
                        (IncrementErrorCount s1))
            | Some ty \<Rightarrow>
                (case items s1 MadtInterruptControllerLength of
                   None \<Rightarrow>
                     Some (False, MadtDatabase,
                           Print (InsufficientLength (Name MadtDatabase) (AcpiTableLength - Off))
                             (IncrementErrorCount s1))
                 | Some ln \<Rightarrow>
                     (if mem ln = 0 \<or> Off + ucast (mem ln) > AcpiTableLength then
                        Some (False, MadtDatabase,
                              Print (InvalidLength (Name MadtDatabase) (mem ln) Off AcpiTableLength)
                                (IncrementErrorCount s1))
                      else
                        (case ParseAcpiStruct cfg mem 2 InterruptContollerPtr MadtDatabase Off
                                (ucast (mem ty)) (ucast (mem ln)) None None s1 of
                           (ok, db, s2) \<Rightarrow>
                             (case items s2 MadtInterruptControllerLength of
                                None \<Rightarrow> None
                              | Some ln' \<Rightarrow>
                                  ParseAcpiMadt_loop cfg mem AcpiTableLength
                                    (InterruptContollerPtr + unat (mem ln'))
                                    (Off + ucast (mem ln')) db s2)))))
      else Some (True, MadtDatabase, s))"

text \<open>
  \<open>ParseAcpiMadt\<close>. The descriptor table \<open>MadtParser\<close> (built with the macro
  \<open>PARSE_ACPI_HEADER\<close>), the contents of \<open>MadtDatabase\<close> (built with the macros
  \<open>ADD_ACPI_STRUCT_INFO_ARRAY\<close> and \<open>ACPI_STRUCT_INFO_PARSER_NOT_IMPLEMENTED\<close>) and the type
  code \<open>EFI_ACPI_6_3_GICD\<close> come from headers outside the sources at hand and are
  parameters. The result holds the database and the state on return.
\<close>

definition ParseAcpiMadt ::
  "acpi_view \<Rightarrow> memory \<Rightarrow> acpi_parser list \<Rightarrow> acpi_struct_database \<Rightarrow> u32 \<Rightarrow>
   bool \<Rightarrow> addr \<Rightarrow> u32 \<Rightarrow> u8 \<Rightarrow> acpi_state \<Rightarrow> (acpi_struct_database \<times> acpi_state) option" where
  "ParseAcpiMadt cfg mem MadtParser MadtDatabase EFI_ACPI_6_3_GICD
       Trace Ptr AcpiTableLength AcpiTableRevision s =
     (if \<not> Trace then Some (MadtDatabase, s)
      else
        (let db0 = ResetAcpiStructCounts MadtDatabase;
             r = ParseAcpi cfg mem True 0 (Some (Ascii ''MADT'')) Ptr AcpiTableLength MadtParser s
         in case ParseAcpiMadt_loop cfg mem AcpiTableLength (Ptr + unat (fst r)) (fst r) db0 (snd r) of
              None \<Rightarrow> None
            | Some (finished, db, s1) \<Rightarrow>
                (if finished \<and> GetConsistencyChecking cfg then
                   (let s2 = snd (ValidateAcpiStructCounts cfg db s1)
                    in if Count (entry db EFI_ACPI_6_3_GICD) > 1
                       then Some (db, Print (OnlyOne (acpi_struct_info.Name (entry db EFI_ACPI_6_3_GICD)))
                                        (IncrementErrorCount s2))
                       else Some (db, s2))
                 else Some (db, s1))))"

subsection \<open>The PPTT parser (PpttParser.c)\<close>

definition ProcessorTopologyStructureHeaderParser :: "acpi_parser list" where
  "ProcessorTopologyStructureHeaderParser =
     [ACPI_PARSER (Some ''Type'') 1 0 None None (Some ProcessorTopologyStructureType) None None,
      ACPI_PARSER (Some ''Length'') 1 1 None None (Some ProcessorTopologyStructureLength) None None,
      ACPI_PARSER (Some ''Reserved'') 2 2 None None None None None]"

partial_function (option) ParseAcpiPptt_loop ::
  "acpi_view \<Rightarrow> memory \<Rightarrow> u32 \<Rightarrow> addr \<Rightarrow> u32 \<Rightarrow> acpi_struct_database \<Rightarrow> acpi_state \<Rightarrow>
   (bool \<times> acpi_struct_database \<times> acpi_state) option" where
  "ParseAcpiPptt_loop cfg mem AcpiTableLength ProcessorTopologyStructurePtr Off PpttDatabase s =
     (if Off < AcpiTableLength then
        (let s1 = snd (ParseAcpi cfg mem False 0 None ProcessorTopologyStructurePtr
                         (AcpiTableLength - Off) ProcessorTopologyStructureHeaderParser s)
         in case items s1 ProcessorTopologyStructureType of
              None \<Rightarrow>
                Some (False, PpttDatabase,
                      Print (InsufficientLength (Name PpttDatabase) (AcpiTableLength - Off))
                        (IncrementErrorCount s1))
            | Some ty \<Rightarrow>
                (case items s1 ProcessorTopologyStructureLength of
                   None \<Rightarrow>
                     Some (False, PpttDatabase,
                           Print (InsufficientLength (Name PpttDatabase) (AcpiTableLength - Off))
                             (IncrementErrorCount s1))
                 | Some ln \<Rightarrow>
                     (if mem ln = 0 \<or> Off + ucast (mem ln) > AcpiTableLength then
                        Some (False, PpttDatabase,
                              Print (InvalidLength (Name PpttDatabase) (mem ln) Off AcpiTableLength)
                                (IncrementErrorCount s1))
                      else
                        (case ParseAcpiStruct cfg mem 2 ProcessorTopologyStructurePtr PpttDatabase Off
                                (ucast (mem ty)) (ucast (mem ln)) None None s1 of
                           (ok, db, s2) \<Rightarrow>
                             (case items s2 ProcessorTopologyStructureLength of
                                None \<Rightarrow> None
                              | Some ln' \<Rightarrow>
                                  ParseAcpiPptt_loop cfg mem AcpiTableLength
                                    (ProcessorTopologyStructurePtr + unat (mem ln'))
                                    (Off + ucast (mem ln')) db s2)))))
      else Some (True, PpttDatabase, s))"

text \<open>
  \<open>ParseAcpiPptt\<close>; \<open>PpttParser\<close> and the contents of \<open>PpttDatabase\<close> are parameters, as for
  the MADT.
\<close>

definition ParseAcpiPptt ::
  "acpi_view \<Rightarrow> memory \<Rightarrow> acpi_parser list \<Rightarrow> acpi_struct_database \<Rightarrow>
   bool \<Rightarrow> addr \<Rightarrow> u32 \<Rightarrow> u8 \<Rightarrow> acpi_state \<Rightarrow> (acpi_struct_database \<times> acpi_state) option" where
  "ParseAcpiPptt cfg mem PpttParser PpttDatabase Trace Ptr AcpiTableLength AcpiTableRevision s =
     (if \<not> Trace then Some (PpttDatabase, s)
      else
        (let db0 = ResetAcpiStructCounts PpttDatabase;
             r = ParseAcpi cfg mem True 0 (Some (Ascii ''PPTT'')) Ptr AcpiTableLength PpttParser s
         in case ParseAcpiPptt_loop cfg mem AcpiTableLength (Ptr + unat (fst r)) (fst r) db0 (snd r) of
              None \<Rightarrow> None
            | Some (finished, db, s1) \<Rightarrow>
                (if finished \<and> GetConsistencyChecking cfg
                 then Some (db, snd (ValidateAcpiStructCounts cfg db s1))
                 else Some (db, s1))))"

subsection \<open>Notions used in the statements\<close>

text \<open>
  A database is well formed when \<open>EntryCount\<close> is the size of the \<open>Entries\<close> array (the
  source sets it with \<open>ARRAY_SIZE\<close>), so that \<open>Entries[Type]\<close> exists for every
  \<open>Type < EntryCount\<close>.
\<close>

definition db_wf :: "acpi_struct_database \<Rightarrow> bool" where
  "db_wf StructDb = (unat (EntryCount StructDb) = length (Entries StructDb))"

text \<open>
  What the build makes of a \<open>CompatArch\<close> mask, written out: on a build for ARM or AArch64
  a mask is allowed when it has the \<open>ARCH_COMPAT_ARM\<close> or the \<open>ARCH_COMPAT_AARCH64\<close> bit; on
  a build for any other architecture every mask that is not zero is allowed, whichever
  architectures it names.
\<close>

definition allowed_on_build :: "acpi_view \<Rightarrow> u32 \<Rightarrow> bool" where
  "allowed_on_build cfg archs =
     (if MDE_CPU_ARM cfg
      then archs AND (ARCH_COMPAT_ARM cfg OR ARCH_COMPAT_AARCH64 cfg) \<noteq> 0
      else archs \<noteq> 0)"

text \<open>
  The type codes \<open>Ty, Ty + 1, ...\<close> below \<open>EntryCount\<close>, in the order the loops visit them;
  the line of the table breakdown for one type code (its count when its mask is allowed on
  the build, an error when it is not and the count is not zero, nothing otherwise); and
  the types that are present although their mask is not allowed on the build.
\<close>

definition types_from :: "u32 \<Rightarrow> acpi_struct_database \<Rightarrow> u32 list" where
  "types_from Ty StructDb = map of_nat [unat Ty..<unat (EntryCount StructDb)]"

definition breakdown_line :: "acpi_view \<Rightarrow> acpi_struct_database \<Rightarrow> u32 \<Rightarrow> event list" where
  "breakdown_line cfg StructDb Ty =
     (if allowed_on_build cfg (CompatArch (entry StructDb Ty)) then
        [InstanceCount (INSTANCE_COUNT_INDENT cfg)
           (OUTPUT_FIELD_COLUMN_WIDTH cfg - INSTANCE_COUNT_INDENT cfg)
           (acpi_struct_info.Name (entry StructDb Ty)) (Count (entry StructDb Ty))]
      else if Count (entry StructDb Ty) > 0 then
        [NotValidForArch (acpi_struct_info.Name (entry StructDb Ty)) (Count (entry StructDb Ty))]
      else [])"

definition incompatible_present :: "acpi_view \<Rightarrow> acpi_struct_database \<Rightarrow> u32 \<Rightarrow> bool" where
  "incompatible_present cfg StructDb Ty =
     (\<not> allowed_on_build cfg (CompatArch (entry StructDb Ty)) \<and> Count (entry StructDb Ty) > 0)"

subsection \<open>Notions used in the statements about ParseAcpi\<close>

text \<open>
  \<open>gIndent\<close> is a static variable of AcpiParser.c, so formatters, validators and parser
  functions, which live in other files, can reach it only through the functions of
  AcpiParser.c. \<open>parser_keeps_gIndent p\<close> says that the formatter and the validator of the
  descriptor \<open>p\<close> return with \<open>gIndent\<close> as they found it; \<open>handler_keeps_gIndent h\<close> says the
  same of the parser function of a handler and of the descriptors of its array.
\<close>

definition parser_keeps_gIndent :: "acpi_parser \<Rightarrow> bool" where
  "parser_keeps_gIndent p =
     ((\<forall>formatter cfg mem fmt Ptr s.
         PrintFormatter p = Some formatter \<longrightarrow> gIndent (formatter cfg mem fmt Ptr s) = gIndent s) \<and>
      (\<forall>validator cfg mem Ptr ctx s.
         FieldValidator p = Some validator \<longrightarrow> gIndent (validator cfg mem Ptr ctx s) = gIndent s))"

definition handler_keeps_gIndent :: "acpi_struct_handler \<Rightarrow> bool" where
  "handler_keeps_gIndent h =
     ((\<forall>func cfg mem Ptr Len OptArg0 OptArg1 s.
         ParserFunc h = Some func \<longrightarrow> gIndent (func cfg mem Ptr Len OptArg0 OptArg1 s) = gIndent s) \<and>
      (\<forall>array. ParserArray h = Some array \<longrightarrow> (\<forall>p \<in> set array. parser_keeps_gIndent p)))"

text \<open>
  The number of offset-mismatch errors on the console, and the descriptors whose
  formatter and validator print none (and remove none).
\<close>

fun is_OffsetMismatch :: "event \<Rightarrow> bool" where
  "is_OffsetMismatch (OffsetMismatch a n cur decl) = True"
| "is_OffsetMismatch e = False"

definition count_mismatch :: "event list \<Rightarrow> nat" where
  "count_mismatch out = length (filter is_OffsetMismatch out)"

definition parser_reports_no_mismatch :: "acpi_parser \<Rightarrow> bool" where
  "parser_reports_no_mismatch p =
     ((\<forall>formatter cfg mem fmt Ptr s.
         PrintFormatter p = Some formatter \<longrightarrow>
           count_mismatch (ConOut (formatter cfg mem fmt Ptr s)) = count_mismatch (ConOut s)) \<and>
      (\<forall>validator cfg mem Ptr ctx s.
         FieldValidator p = Some validator \<longrightarrow>
           count_mismatch (ConOut (validator cfg mem Ptr ctx s)) = count_mismatch (ConOut s)))"

text \<open>
  The sum of the field lengths of a descriptor list. \<open>consistent off Parser\<close>: every
  declared offset equals the running sum of the lengths before it, starting from \<open>off\<close>.
  \<open>mismatches off Parser\<close>: the number of descriptors whose declared offset differs from
  that running sum. \<open>perturb k off' Parser\<close>: the list with the declared offset of
  descriptor \<open>k\<close> changed to \<open>off'\<close>.
\<close>

definition sum_Length :: "acpi_parser list \<Rightarrow> nat" where
  "sum_Length Parser = (\<Sum>p \<leftarrow> Parser. unat (Length p))"

fun consistent :: "nat \<Rightarrow> acpi_parser list \<Rightarrow> bool" where
  "consistent off [] = True"
| "consistent off (p # Parser) = (unat (Offset p) = off \<and> consistent (off + unat (Length p)) Parser)"

fun mismatches :: "nat \<Rightarrow> acpi_parser list \<Rightarrow> nat" where
  "mismatches off [] = 0"
| "mismatches off (p # Parser) =
     (if unat (Offset p) = off then 0 else 1) + mismatches (off + unat (Length p)) Parser"

definition perturb :: "nat \<Rightarrow> u32 \<Rightarrow> acpi_parser list \<Rightarrow> acpi_parser list" where
  "perturb k off Parser = Parser[k := (Parser ! k)\<lparr>Offset := off\<rparr>]"

subsection \<open>Concrete inputs\<close>

text \<open>
  Settings of an ARM build with consistency checking on, a fresh state, and a database of
  four types: \<open>A\<close> and \<open>D\<close> allowed on ARM only, \<open>B\<close> on X64 only, \<open>C\<close> on both, with
  instance counts 2, 0, 1, 0. \<open>example_db_B\<close> is the same database after three \<open>B\<close>
  structures were seen. \<open>example_view_other\<close> is the same settings on a build that is
  neither for ARM nor for AArch64.
\<close>

definition example_view :: acpi_view where
  "example_view =
     \<lparr>GetConsistencyChecking = True, GetColourHighlighting = False, MDE_CPU_ARM = True,
      ARCH_COMPAT_ARM = 4, ARCH_COMPAT_AARCH64 = 8, OUTPUT_FIELD_COLUMN_WIDTH = 36,
      INSTANCE_COUNT_INDENT = 2\<rparr>"

definition example_view_other :: acpi_view where
  "example_view_other = example_view\<lparr>MDE_CPU_ARM := False\<rparr>"

definition example_state :: acpi_state where
  "example_state =
     \<lparr>gIndent = 0, mTableErrorCount = 0, mTableWarningCount = 0, ConOutAttribute = 7,
      ConOut = [], items = (\<lambda>i. None)\<rparr>"

definition example_func ::
  "acpi_view \<Rightarrow> memory \<Rightarrow> addr \<Rightarrow> u32 \<Rightarrow> addr option \<Rightarrow> addr option \<Rightarrow> acpi_state \<Rightarrow> acpi_state" where
  "example_func cfg mem Ptr Len OptArg0 OptArg1 s = Print (Message ''D'') s"

definition example_db :: acpi_struct_database where
  "example_db =
     \<lparr>Name = ''Example Structure'',
      Entries =
        [\<lparr>acpi_struct_info.Name = ''A'', Type = 0, CompatArch = 4, Count = 2,
          Handler = \<lparr>ParserFunc = None, ParserArray = Some GicDParser\<rparr>\<rparr>,
         \<lparr>acpi_struct_info.Name = ''B'', Type = 1, CompatArch = 2, Count = 0,
          Handler = \<lparr>ParserFunc = None, ParserArray = None\<rparr>\<rparr>,
         \<lparr>acpi_struct_info.Name = ''C'', Type = 2, CompatArch = 6, Count = 1,
          Handler = \<lparr>ParserFunc = None, ParserArray = Some GicDParser\<rparr>\<rparr>,
         \<lparr>acpi_struct_info.Name = ''D'', Type = 3, CompatArch = 4, Count = 0,
          Handler = \<lparr>ParserFunc = Some example_func, ParserArray = None\<rparr>\<rparr>],
      EntryCount = 4\<rparr>"

definition example_db_B :: acpi_struct_database where
  "example_db_B = set_Count 1 3 example_db"

text \<open>
  The GICD row \<open>System Vector Base\<close> given a custom formatter next to its validator, and
  the first three rows of the ACPI table header (signature, length, revision), each with
  a pointer variable to capture the field.
\<close>

definition formatted_field :: acpi_parser where
  "formatted_field =
     ACPI_PARSER (Some ''System Vector Base'') 4 0 (Some ''%x %x %x'') (Some Dump3Chars) None
       (Some ValidateGICDSystemVectorBase) None"

definition header_prefix :: "acpi_parser list" where
  "header_prefix =
     [ACPI_PARSER (Some ''Signature'') 4 0 None None (Some (Item 0)) None None,
      ACPI_PARSER (Some ''Length'') 4 4 None None (Some (Item 1)) None None,
      ACPI_PARSER (Some ''Revision'') 1 8 None None (Some (Item 2)) None None]"

section \<open>Properties\<close>

subsection \<open>Counters and console: what each operation leaves alone\<close>

lemma Print_fields [simp]:
  "gIndent (Print e s) = gIndent s"
  "mTableErrorCount (Print e s) = mTableErrorCount s"
  "mTableWarningCount (Print e s) = mTableWarningCount s"
  "ConOutAttribute (Print e s) = ConOutAttribute s"
  "ConOut (Print e s) = ConOut s @ [e]"
  "items (Print e s) = items s"
  by (simp_all add: Print_def)

lemma IncrementErrorCount_fields [simp]:
  "gIndent (IncrementErrorCount s) = gIndent s"
  "mTableErrorCount (IncrementErrorCount s) = mTableErrorCount s + 1"
  "mTableWarningCount (IncrementErrorCount s) = mTableWarningCount s"
  "ConOutAttribute (IncrementErrorCount s) = ConOutAttribute s"
  "ConOut (IncrementErrorCount s) = ConOut s"
  "items (IncrementErrorCount s) = items s"
  by (simp_all add: IncrementErrorCount_def)

lemma SetAttribute_fields [simp]:
  "gIndent (SetAttribute a s) = gIndent s"
  "mTableErrorCount (SetAttribute a s) = mTableErrorCount s"
  "mTableWarningCount (SetAttribute a s) = mTableWarningCount s"
  "ConOutAttribute (SetAttribute a s) = a"
  "ConOut (SetAttribute a s) = ConOut s"
  "items (SetAttribute a s) = items s"
  by (simp_all add: SetAttribute_def)

subsection \<open>VerifyChecksum\<close>

lemma VerifyChecksum_loop_sum:
  "unat (VerifyChecksum_loop mem Len Ptr ByteCount Checksum) =
     (unat Checksum + (\<Sum>i < unat Len - ByteCount. unat (mem (Ptr + i)))) mod 256"
proof (induction mem Len Ptr ByteCount Checksum rule: VerifyChecksum_loop.induct)
  case (1 mem Len Ptr ByteCount Checksum)
  show ?case
  proof (cases "ByteCount < unat Len")
    case False
    have "unat Checksum < 256"
      using unsigned_less [of Checksum] by simp
    with False show ?thesis
      by (subst VerifyChecksum_loop.simps) simp
  next
    case True
    then obtain k where k: "unat Len - ByteCount = Suc k"
      by (metis Suc_diff_Suc)
    with True have k': "unat Len - (ByteCount + 1) = k"
      by simp
    have "unat (VerifyChecksum_loop mem Len Ptr ByteCount Checksum) =
            unat (VerifyChecksum_loop mem Len (Ptr + 1) (ByteCount + 1) (Checksum + mem Ptr))"
      using True by (subst VerifyChecksum_loop.simps) simp
    also have "\<dots> = (unat (Checksum + mem Ptr) + (\<Sum>i < k. unat (mem (Ptr + 1 + i)))) mod 256"
      using "1.IH" [OF True] k' by simp
    also have "\<dots> = (unat Checksum + (unat (mem Ptr) + (\<Sum>i < k. unat (mem (Ptr + 1 + i))))) mod 256"
      by (simp add: unat_word_ariths mod_add_left_eq add.assoc)
    finally have step: "unat (VerifyChecksum_loop mem Len Ptr ByteCount Checksum) =
        (unat Checksum + (unat (mem Ptr) + (\<Sum>i < k. unat (mem (Ptr + 1 + i))))) mod 256" .
    have shift: "unat (mem Ptr) + (\<Sum>i < k. unat (mem (Ptr + 1 + i))) =
                 (\<Sum>i < Suc k. unat (mem (Ptr + i)))"
      by (subst sum.lessThan_Suc_shift) simp
    show ?thesis
      unfolding step shift k ..
  qed
qed

text \<open>
  C10. \<open>VerifyChecksum\<close> returns \<open>TRUE\<close> exactly when the sum of the \<open>Length\<close> bytes of the
  buffer is zero modulo 256. The error counter goes up by one when \<open>Log\<close> is \<open>TRUE\<close> and
  that sum is not zero, and keeps its value in every other case: a failing checksum
  verified with \<open>Log = FALSE\<close> returns \<open>FALSE\<close> and leaves the error count as it was.
\<close>

theorem VerifyChecksum_result:
  "fst (VerifyChecksum cfg Log mem Ptr Len s) =
     ((\<Sum>i < unat Len. unat (mem (Ptr + i))) mod 256 = 0) \<and>
   mTableErrorCount (snd (VerifyChecksum cfg Log mem Ptr Len s)) =
     mTableErrorCount s +
       (if Log \<and> (\<Sum>i < unat Len. unat (mem (Ptr + i))) mod 256 \<noteq> 0 then 1 else 0)"
proof -
  have sum: "unat (VerifyChecksum_loop mem Len Ptr 0 0) =
               (\<Sum>i < unat Len. unat (mem (Ptr + i))) mod 256"
    using VerifyChecksum_loop_sum [of mem Len Ptr 0 0] by simp
  have zero: "(VerifyChecksum_loop mem Len Ptr 0 0 = 0) =
                ((\<Sum>i < unat Len. unat (mem (Ptr + i))) mod 256 = 0)"
    using sum by (metis unat_eq_0)
  show ?thesis
    using zero by (simp add: VerifyChecksum_def Let_def)
qed

subsection \<open>ParseAcpiStruct\<close>

lemma set_item_fields [simp]:
  "gIndent (set_item ip v s) = gIndent s"
  "mTableErrorCount (set_item ip v s) = mTableErrorCount s"
  "mTableWarningCount (set_item ip v s) = mTableWarningCount s"
  "ConOutAttribute (set_item ip v s) = ConOutAttribute s"
  "ConOut (set_item ip v s) = ConOut s"
  by (simp_all add: set_item_def split: option.splits)

lemma PrintFieldName_fields [simp]:
  "gIndent (PrintFieldName cfg i n s) = gIndent s"
  "mTableErrorCount (PrintFieldName cfg i n s) = mTableErrorCount s"
  "mTableWarningCount (PrintFieldName cfg i n s) = mTableWarningCount s"
  "ConOutAttribute (PrintFieldName cfg i n s) = ConOutAttribute s"
  "ConOut (PrintFieldName cfg i n s) =
     ConOut s @ [FieldLabel (gIndent s + i) (OUTPUT_FIELD_COLUMN_WIDTH cfg - gIndent s - i) n]"
  "items (PrintFieldName cfg i n s) = items s"
  by (simp_all add: PrintFieldName_def)

text \<open>
  C4. A call of \<open>ParseAcpiStruct\<close> with a type code at or above the database's
  \<open>EntryCount\<close> returns \<open>FALSE\<close>, hands the database back as it was (no instance count
  changes), raises the error counter by one and prints, after the offset line, exactly one
  unknown-type error.
\<close>

theorem ParseAcpiStruct_unknown_type:
  assumes "Ty \<ge> EntryCount StructDb"
  shows "fst (ParseAcpiStruct cfg mem Indent Ptr StructDb Off Ty Len OptArg0 OptArg1 s) = False \<and>
         fst (snd (ParseAcpiStruct cfg mem Indent Ptr StructDb Off Ty Len OptArg0 OptArg1 s)) = StructDb \<and>
         mTableErrorCount (snd (snd (ParseAcpiStruct cfg mem Indent Ptr StructDb Off Ty Len OptArg0 OptArg1 s))) =
           mTableErrorCount s + 1 \<and>
         ConOut (snd (snd (ParseAcpiStruct cfg mem Indent Ptr StructDb Off Ty Len OptArg0 OptArg1 s))) =
           ConOut s @
             [FieldLabel (gIndent s + Indent) (OUTPUT_FIELD_COLUMN_WIDTH cfg - gIndent s - Indent)
                (Some ''* Offset *''),
              StructOffset Off,
              UnknownType (Name StructDb) Ty]"
  using assms by (simp add: ParseAcpiStruct_def Let_def)

theorem ParseAcpiStruct_unknown_type_witness:
  "EntryCount example_db \<le> 4 \<and>
   fst (ParseAcpiStruct example_view (\<lambda>a. 0) 2 0 example_db 44 4 8 None None example_state) = False \<and>
   fst (snd (ParseAcpiStruct example_view (\<lambda>a. 0) 2 0 example_db 44 4 8 None None example_state)) =
     example_db \<and>
   mTableErrorCount
     (snd (snd (ParseAcpiStruct example_view (\<lambda>a. 0) 2 0 example_db 44 4 8 None None example_state))) = 1 \<and>
   ConOut
     (snd (snd (ParseAcpiStruct example_view (\<lambda>a. 0) 2 0 example_db 44 4 8 None None example_state))) =
     [FieldLabel 2 34 (Some ''* Offset *''), StructOffset 44, UnknownType ''Example Structure'' 4]"
proof -
  have h: "EntryCount example_db \<le> 4"
    by (simp add: example_db_def)
  show ?thesis
    using h ParseAcpiStruct_unknown_type
      [OF h, of example_view "\<lambda>a. 0" 2 0 44 8 None None example_state]
    by (simp add: example_db_def example_state_def example_view_def)
qed

lemma entry_set_Count_same:
  "unat Ty < length (Entries StructDb) \<Longrightarrow>
   entry (set_Count Ty c StructDb) Ty = (entry StructDb Ty)\<lparr>Count := c\<rparr>"
  by (simp add: entry_def set_Count_def)

lemma entry_set_Count_other:
  "Ty' \<noteq> Ty \<Longrightarrow> entry (set_Count Ty c StructDb) Ty' = entry StructDb Ty'"
  by (simp add: entry_def set_Count_def word_unat_eq_iff)

lemma set_Count_shape [simp]:
  "EntryCount (set_Count Ty c StructDb) = EntryCount StructDb"
  "Name (set_Count Ty c StructDb) = Name StructDb"
  "length (Entries (set_Count Ty c StructDb)) = length (Entries StructDb)"
  by (simp_all add: set_Count_def)

lemma ParseAcpiStruct_database:
  assumes "Ty < EntryCount StructDb"
  shows "fst (snd (ParseAcpiStruct cfg mem Indent Ptr StructDb Off Ty Len OptArg0 OptArg1 s)) =
           set_Count Ty (Count (entry StructDb Ty) + 1) StructDb"
  using assms by (simp add: ParseAcpiStruct_def Let_def not_le [symmetric] split: option.splits)

text \<open>
  C5. A call of \<open>ParseAcpiStruct\<close> with a type code below \<open>EntryCount\<close> raises that
  entry's instance count by exactly one (a \<open>UINT32\<close> increment) on each of the three
  paths: parser function, descriptor array, and not implemented. Every other entry is
  left as it was. The call returns \<open>TRUE\<close> on the first two paths and \<open>FALSE\<close> on the
  third.
\<close>

theorem ParseAcpiStruct_counts:
  assumes "db_wf StructDb" and "Ty < EntryCount StructDb"
  shows "Count (entry (fst (snd (ParseAcpiStruct cfg mem Indent Ptr StructDb Off Ty Len OptArg0 OptArg1 s))) Ty) =
           Count (entry StructDb Ty) + 1 \<and>
         (\<forall>Ty'. Ty' \<noteq> Ty \<longrightarrow>
            entry (fst (snd (ParseAcpiStruct cfg mem Indent Ptr StructDb Off Ty Len OptArg0 OptArg1 s))) Ty' =
              entry StructDb Ty') \<and>
         EntryCount (fst (snd (ParseAcpiStruct cfg mem Indent Ptr StructDb Off Ty Len OptArg0 OptArg1 s))) =
           EntryCount StructDb \<and>
         fst (ParseAcpiStruct cfg mem Indent Ptr StructDb Off Ty Len OptArg0 OptArg1 s) =
           (ParserFunc (Handler (entry StructDb Ty)) \<noteq> None \<or>
            ParserArray (Handler (entry StructDb Ty)) \<noteq> None)"
proof -
  from assms have inside: "unat Ty < length (Entries StructDb)"
    by (simp add: db_wf_def word_less_nat_alt)
  have ret: "fst (ParseAcpiStruct cfg mem Indent Ptr StructDb Off Ty Len OptArg0 OptArg1 s) =
           (ParserFunc (Handler (entry StructDb Ty)) \<noteq> None \<or>
            ParserArray (Handler (entry StructDb Ty)) \<noteq> None)"
    using assms(2) by (simp add: ParseAcpiStruct_def Let_def not_le [symmetric] split: option.splits)
  show ?thesis
    unfolding ParseAcpiStruct_database [OF assms(2)]
    using inside ret by (simp add: entry_set_Count_same entry_set_Count_other)
qed

theorem ParseAcpiStruct_counts_witness:
  "db_wf example_db \<and> 1 < EntryCount example_db \<and>
   Count (entry (fst (snd (ParseAcpiStruct example_view (\<lambda>a. 0) 2 0 example_db 44 1 8 None None
                             example_state))) 1) = 1 \<and>
   entry (fst (snd (ParseAcpiStruct example_view (\<lambda>a. 0) 2 0 example_db 44 1 8 None None
                      example_state))) 0 = entry example_db 0 \<and>
   fst (ParseAcpiStruct example_view (\<lambda>a. 0) 2 0 example_db 44 1 8 None None example_state) = False"
proof -
  have wf: "db_wf example_db"
    by (simp add: db_wf_def example_db_def)
  have lt: "1 < EntryCount example_db"
    by (simp add: example_db_def)
  have B: "entry example_db 1 =
             \<lparr>acpi_struct_info.Name = ''B'', Type = 1, CompatArch = 2, Count = 0,
              Handler = \<lparr>ParserFunc = None, ParserArray = None\<rparr>\<rparr>"
    by (simp add: entry_def example_db_def)
  show ?thesis
    using wf lt
      ParseAcpiStruct_counts [OF wf lt, of example_view "\<lambda>a. 0" 2 0 44 8 None None example_state]
    by (simp add: B)
qed

subsection \<open>ValidateAcpiStructCounts\<close>

lemma types_from_step:
  assumes "Ty < EntryCount StructDb"
  shows "types_from Ty StructDb = Ty # types_from (Ty + 1) StructDb"
proof -
  from assms have lt: "unat Ty < unat (EntryCount StructDb)"
    by (simp add: word_less_nat_alt)
  from assms have suc: "unat (Ty + 1) = Suc (unat Ty)"
    by unat_arith
  show ?thesis
    using lt by (simp add: types_from_def suc upt_conv_Cons)
qed

lemma types_from_end:
  assumes "\<not> Ty < EntryCount StructDb"
  shows "types_from Ty StructDb = []"
  using assms by (simp add: types_from_def word_less_nat_alt)

lemma set_types_from:
  "set (types_from Ty StructDb) = {T. Ty \<le> T \<and> T < EntryCount StructDb}"
proof (induction "unat (EntryCount StructDb) - unat Ty" arbitrary: Ty)
  case 0
  then have "\<not> Ty < EntryCount StructDb"
    by (simp add: word_less_nat_alt)
  then show ?case
    by (auto simp: types_from_end)
next
  case (Suc n)
  then have lt: "Ty < EntryCount StructDb"
    by (simp add: word_less_nat_alt)
  then have suc: "unat (Ty + 1) = Suc (unat Ty)"
    by unat_arith
  with Suc have "n = unat (EntryCount StructDb) - unat (Ty + 1)"
    by simp
  then have IH: "set (types_from (Ty + 1) StructDb) = {T. Ty + 1 \<le> T \<and> T < EntryCount StructDb}"
    by (rule Suc.hyps(1))
  have "\<And>T. (Ty \<le> T) = (T = Ty \<or> Ty + 1 \<le> T)"
    using lt by unat_arith
  then show ?case
    using lt by (auto simp: types_from_step IH)
qed

lemma IsAcpiStructTypeValid_below:
  assumes "Ty < EntryCount StructDb"
  shows "IsAcpiStructTypeValid cfg Ty StructDb =
           allowed_on_build cfg (CompatArch (entry StructDb Ty))"
  using assms by (simp add: IsAcpiStructTypeValid_def allowed_on_build_def Let_def not_le [symmetric])

lemma ValidateAcpiStructCounts_loop_result:
  "fst (ValidateAcpiStructCounts_loop cfg StructDb Ty AllValid s) =
     (AllValid \<and> \<not> list_ex (incompatible_present cfg StructDb) (types_from Ty StructDb)) \<and>
   ConOut (snd (ValidateAcpiStructCounts_loop cfg StructDb Ty AllValid s)) =
     ConOut s @ concat (map (breakdown_line cfg StructDb) (types_from Ty StructDb)) \<and>
   mTableErrorCount (snd (ValidateAcpiStructCounts_loop cfg StructDb Ty AllValid s)) =
     mTableErrorCount s +
       of_nat (length (filter (incompatible_present cfg StructDb) (types_from Ty StructDb)))"
proof (induction cfg StructDb Ty AllValid s rule: ValidateAcpiStructCounts_loop.induct)
  case (1 cfg StructDb Ty AllValid s)
  show ?case
  proof (cases "Ty < EntryCount StructDb")
    case False
    then have "ValidateAcpiStructCounts_loop cfg StructDb Ty AllValid s = (AllValid, s)"
      by (subst ValidateAcpiStructCounts_loop.simps) simp
    with False show ?thesis
      by (simp add: types_from_end)
  next
    case inside: True
    show ?thesis
    proof (cases "IsAcpiStructTypeValid cfg Ty StructDb")
      case True
      with inside have "ValidateAcpiStructCounts_loop cfg StructDb Ty AllValid s =
          ValidateAcpiStructCounts_loop cfg StructDb (Ty + 1) AllValid
            (Print (InstanceCount (INSTANCE_COUNT_INDENT cfg)
                      (OUTPUT_FIELD_COLUMN_WIDTH cfg - INSTANCE_COUNT_INDENT cfg)
                      (acpi_struct_info.Name (entry StructDb Ty))
                      (Count (entry StructDb Ty))) s)"
        by (subst ValidateAcpiStructCounts_loop.simps) simp
      moreover from True have "allowed_on_build cfg (CompatArch (entry StructDb Ty))"
        by (simp add: IsAcpiStructTypeValid_below [OF inside])
      ultimately show ?thesis
        using inside "1.IH"(1) [OF inside True]
        by (simp add: types_from_step breakdown_line_def incompatible_present_def)
    next
      case invalid: False
      then have refused: "\<not> allowed_on_build cfg (CompatArch (entry StructDb Ty))"
        by (simp add: IsAcpiStructTypeValid_below [OF inside])
      show ?thesis
      proof (cases "Count (entry StructDb Ty) > 0")
        case True
        with inside invalid have "ValidateAcpiStructCounts_loop cfg StructDb Ty AllValid s =
            ValidateAcpiStructCounts_loop cfg StructDb (Ty + 1) False
              (Print (NotValidForArch (acpi_struct_info.Name (entry StructDb Ty))
                        (Count (entry StructDb Ty)))
                 (IncrementErrorCount s))"
          by (subst ValidateAcpiStructCounts_loop.simps) simp
        with inside refused True "1.IH"(2) [OF inside invalid True] show ?thesis
          by (simp add: types_from_step breakdown_line_def incompatible_present_def)
      next
        case False
        with inside invalid have "ValidateAcpiStructCounts_loop cfg StructDb Ty AllValid s =
            ValidateAcpiStructCounts_loop cfg StructDb (Ty + 1) AllValid s"
          by (subst ValidateAcpiStructCounts_loop.simps) simp
        with inside refused False "1.IH"(3) [OF inside invalid False] show ?thesis
          by (simp add: types_from_step breakdown_line_def incompatible_present_def)
      qed
    qed
  qed
qed

lemma below_EntryCount_iff:
  "(\<forall>Ty. Ty < EntryCount StructDb \<longrightarrow> P Ty) = list_all P (types_from 0 StructDb)"
  by (simp add: list_all_iff set_types_from)

lemma example_db_entries:
  "entry example_db 0 = \<lparr>acpi_struct_info.Name = ''A'', Type = 0, CompatArch = 4, Count = 2,
      Handler = \<lparr>ParserFunc = None, ParserArray = Some GicDParser\<rparr>\<rparr>"
  "entry example_db 1 = \<lparr>acpi_struct_info.Name = ''B'', Type = 1, CompatArch = 2, Count = 0,
      Handler = \<lparr>ParserFunc = None, ParserArray = None\<rparr>\<rparr>"
  "entry example_db 2 = \<lparr>acpi_struct_info.Name = ''C'', Type = 2, CompatArch = 6, Count = 1,
      Handler = \<lparr>ParserFunc = None, ParserArray = Some GicDParser\<rparr>\<rparr>"
  "entry example_db 3 = \<lparr>acpi_struct_info.Name = ''D'', Type = 3, CompatArch = 4, Count = 0,
      Handler = \<lparr>ParserFunc = Some example_func, ParserArray = None\<rparr>\<rparr>"
  "types_from 0 example_db = [0, 1, 2, 3]"
  by (simp_all add: entry_def example_db_def types_from_def upt_rec)

lemma example_db_B_entries:
  "entry example_db_B 0 = entry example_db 0"
  "entry example_db_B 1 = (entry example_db 1)\<lparr>Count := 3\<rparr>"
  "entry example_db_B 2 = entry example_db 2"
  "entry example_db_B 3 = entry example_db 3"
  "types_from 0 example_db_B = [0, 1, 2, 3]"
  by (simp_all add: example_db_B_def entry_set_Count_other entry_set_Count_same example_db_def
        types_from_def upt_rec)

lemma example_view_fields:
  "MDE_CPU_ARM example_view" "\<not> MDE_CPU_ARM example_view_other"
  "ARCH_COMPAT_ARM example_view = 4" "ARCH_COMPAT_AARCH64 example_view = 8"
  "ARCH_COMPAT_ARM example_view_other = 4" "ARCH_COMPAT_AARCH64 example_view_other = 8"
  "INSTANCE_COUNT_INDENT example_view = 2" "OUTPUT_FIELD_COLUMN_WIDTH example_view = 36"
  "INSTANCE_COUNT_INDENT example_view_other = 2" "OUTPUT_FIELD_COLUMN_WIDTH example_view_other = 36"
  "ConOut example_state = []" "mTableErrorCount example_state = 0"
  by (simp_all add: example_view_def example_view_other_def example_state_def)

text \<open>
  C6, as stated, fails on a build that is neither for ARM nor for AArch64. The mask of
  type \<open>A\<close> names ARM only, so \<open>A\<close> is not compatible with the target, and two \<open>A\<close>
  structures were counted; yet \<open>ValidateAcpiStructCounts\<close> returns \<open>TRUE\<close>, reports no error
  and prints the count of \<open>A\<close> (and of every other type) as that of a compatible type.
\<close>

theorem ValidateAcpiStructCounts_other_build_accepts_ARM_only:
  "\<not> MDE_CPU_ARM example_view_other \<and>
   CompatArch (entry example_db 0) = ARCH_COMPAT_ARM example_view_other \<and>
   Count (entry example_db 0) = 2 \<and>
   fst (ValidateAcpiStructCounts example_view_other example_db example_state) = True \<and>
   mTableErrorCount (snd (ValidateAcpiStructCounts example_view_other example_db example_state)) = 0 \<and>
   ConOut (snd (ValidateAcpiStructCounts example_view_other example_db example_state)) =
     [TableBreakdown, InstanceCount 2 34 ''A'' 2, InstanceCount 2 34 ''B'' 0,
      InstanceCount 2 34 ''C'' 1, InstanceCount 2 34 ''D'' 0]"
  using ValidateAcpiStructCounts_loop_result
    [of example_view_other example_db 0 True "Print TableBreakdown example_state"]
  by (simp add: ValidateAcpiStructCounts_def example_db_entries example_view_fields
        allowed_on_build_def breakdown_line_def incompatible_present_def)

text \<open>
  C6, amended. \<open>ValidateAcpiStructCounts\<close> returns \<open>TRUE\<close> if and only if every entry whose
  mask is not allowed on the build has an instance count of zero, where a mask is allowed
  on an ARM or AArch64 build when it has the ARM or the AArch64 bit, and on every other
  build when it is not zero. After the heading it prints, in type order, the count of
  every entry whose mask is allowed (zero or not) and an error for every entry whose mask
  is not allowed and whose count is not zero, and the error counter goes up by one for
  each of these errors.
\<close>

theorem ValidateAcpiStructCounts_by_build:
  "fst (ValidateAcpiStructCounts cfg StructDb s) =
     (\<forall>Ty. Ty < EntryCount StructDb \<longrightarrow>
        allowed_on_build cfg (CompatArch (entry StructDb Ty)) \<or> Count (entry StructDb Ty) = 0) \<and>
   ConOut (snd (ValidateAcpiStructCounts cfg StructDb s)) =
     ConOut s @ TableBreakdown # concat (map (breakdown_line cfg StructDb) (types_from 0 StructDb)) \<and>
   mTableErrorCount (snd (ValidateAcpiStructCounts cfg StructDb s)) =
     mTableErrorCount s +
       of_nat (length (filter (incompatible_present cfg StructDb) (types_from 0 StructDb)))"
proof -
  have "list_ex (incompatible_present cfg StructDb) (types_from 0 StructDb) =
          (\<exists>Ty. Ty < EntryCount StructDb \<and> incompatible_present cfg StructDb Ty)"
    by (simp add: list_ex_iff set_types_from)
  then have "(\<not> list_ex (incompatible_present cfg StructDb) (types_from 0 StructDb)) =
          (\<forall>Ty. Ty < EntryCount StructDb \<longrightarrow>
             allowed_on_build cfg (CompatArch (entry StructDb Ty)) \<or> Count (entry StructDb Ty) = 0)"
    by (auto simp: incompatible_present_def word_gt_0)
  then show ?thesis
    using ValidateAcpiStructCounts_loop_result [of cfg StructDb 0 True "Print TableBreakdown s"]
    by (simp add: ValidateAcpiStructCounts_def)
qed

theorem ValidateAcpiStructCounts_by_build_witness:
  "fst (ValidateAcpiStructCounts example_view example_db_B example_state) = False \<and>
   ConOut (snd (ValidateAcpiStructCounts example_view example_db_B example_state)) =
     [TableBreakdown, InstanceCount 2 34 ''A'' 2, NotValidForArch ''B'' 3,
      InstanceCount 2 34 ''C'' 1, InstanceCount 2 34 ''D'' 0] \<and>
   mTableErrorCount (snd (ValidateAcpiStructCounts example_view example_db_B example_state)) = 1 \<and>
   fst (ValidateAcpiStructCounts example_view_other example_db_B example_state) = True \<and>
   ConOut (snd (ValidateAcpiStructCounts example_view_other example_db_B example_state)) =
     [TableBreakdown, InstanceCount 2 34 ''A'' 2, InstanceCount 2 34 ''B'' 3,
      InstanceCount 2 34 ''C'' 1, InstanceCount 2 34 ''D'' 0] \<and>
   mTableErrorCount (snd (ValidateAcpiStructCounts example_view_other example_db_B example_state)) = 0"
  using ValidateAcpiStructCounts_by_build [of example_view example_db_B example_state]
    ValidateAcpiStructCounts_by_build [of example_view_other example_db_B example_state]
  by (simp add: below_EntryCount_iff example_db_B_entries example_db_entries example_view_fields
        allowed_on_build_def breakdown_line_def incompatible_present_def)

subsection \<open>ParseAcpi: the loop\<close>

lemma count_mismatch_simps [simp]:
  "count_mismatch [] = 0"
  "count_mismatch (e # out) = (if is_OffsetMismatch e then 1 else 0) + count_mismatch out"
  "count_mismatch (out @ out') = count_mismatch out + count_mismatch out'"
  by (simp_all add: count_mismatch_def)

lemma Dump_fields [simp]:
  "gIndent (DumpUint8 fmt mem Ptr s) = gIndent s"
  "gIndent (DumpUint16 fmt mem Ptr s) = gIndent s"
  "gIndent (DumpUint32 fmt mem Ptr s) = gIndent s"
  "gIndent (DumpUint64 fmt mem Ptr s) = gIndent s"
  "count_mismatch (ConOut (DumpUint8 fmt mem Ptr s)) = count_mismatch (ConOut s)"
  "count_mismatch (ConOut (DumpUint16 fmt mem Ptr s)) = count_mismatch (ConOut s)"
  "count_mismatch (ConOut (DumpUint32 fmt mem Ptr s)) = count_mismatch (ConOut s)"
  "count_mismatch (ConOut (DumpUint64 fmt mem Ptr s)) = count_mismatch (ConOut s)"
  by (simp_all add: DumpUint8_def DumpUint16_def DumpUint32_def DumpUint64_def Let_def)

lemma TraceField_gIndent:
  assumes "parser_keeps_gIndent p"
  shows "gIndent (TraceField cfg mem AsciiName Ptr p s) = gIndent s"
  using assms
  by (simp add: TraceField_def parser_keeps_gIndent_def Let_def split: option.splits)

lemma ParseAcpi_loop_gIndent:
  assumes "Trace \<longrightarrow> (\<forall>p \<in> set Parser. parser_keeps_gIndent p)"
  shows "gIndent (snd (ParseAcpi_loop cfg mem Trace AsciiName Len Parser Ptr Off s)) = gIndent s"
  using assms
proof (induction Parser arbitrary: Ptr Off s)
  case Nil
  then show ?case by simp
next
  case (Cons p Parser)
  then show ?case
    by (simp add: Let_def TraceField_gIndent)
qed

lemma TraceField_count_mismatch:
  assumes "parser_reports_no_mismatch p"
  shows "count_mismatch (ConOut (TraceField cfg mem AsciiName Ptr p s)) = count_mismatch (ConOut s)"
proof -
  from assms have formatter: "\<And>f cfg mem fmt Ptr s. PrintFormatter p = Some f \<Longrightarrow>
      count_mismatch (ConOut (f cfg mem fmt Ptr s)) = count_mismatch (ConOut s)"
    and validator: "\<And>v cfg mem Ptr ctx s. FieldValidator p = Some v \<Longrightarrow>
      count_mismatch (ConOut (v cfg mem Ptr ctx s)) = count_mismatch (ConOut s)"
    by (simp_all add: parser_reports_no_mismatch_def)
  show ?thesis
    by (simp add: TraceField_def Let_def formatter validator split: option.splits)
qed

lemma ParseAcpi_loop_fits:
  assumes "unat Off + sum_Length Parser \<le> unat Len"
  shows "unat (fst (ParseAcpi_loop cfg mem Trace AsciiName Len Parser Ptr Off s)) =
           unat Off + sum_Length Parser"
  using assms
proof (induction Parser arbitrary: Ptr Off s)
  case Nil
  then show ?case by (simp add: sum_Length_def)
next
  case (Cons p Parser)
  from Cons.prems have bound: "unat Off + unat (Length p) + sum_Length Parser \<le> unat Len"
    by (simp add: sum_Length_def)
  have "unat Len < 2 ^ 32"
    using unsigned_less [of Len] by simp
  with bound have add: "unat (Off + Length p) = unat Off + unat (Length p)"
    by (simp add: unat_add_lem [THEN iffD1])
  with bound have inside: "\<not> Off + Length p > Len"
    by (simp add: word_less_nat_alt)
  from bound add have "unat (Off + Length p) + sum_Length Parser \<le> unat Len"
    by simp
  from Cons.IH [OF this] inside add show ?case
    by (simp add: Let_def sum_Length_def)
qed

lemma ParseAcpi_loop_append:
  assumes "unat Off + sum_Length pre \<le> unat Len"
  shows "ParseAcpi_loop cfg mem Trace AsciiName Len (pre @ post) Ptr Off s =
           ParseAcpi_loop cfg mem Trace AsciiName Len post
             (Ptr + sum_Length pre) (Off + of_nat (sum_Length pre))
             (snd (ParseAcpi_loop cfg mem Trace AsciiName Len pre Ptr Off s))"
  using assms
proof (induction pre arbitrary: Ptr Off s)
  case Nil
  then show ?case by (simp add: sum_Length_def)
next
  case (Cons p pre)
  from Cons.prems have bound: "unat Off + unat (Length p) + sum_Length pre \<le> unat Len"
    by (simp add: sum_Length_def)
  have "unat Len < 2 ^ 32"
    using unsigned_less [of Len] by simp
  with bound have add: "unat (Off + Length p) = unat Off + unat (Length p)"
    by (simp add: unat_add_lem [THEN iffD1])
  with bound have inside: "\<not> Off + Length p > Len"
    by (simp add: word_less_nat_alt)
  from bound add have fits: "unat (Off + Length p) + sum_Length pre \<le> unat Len"
    by simp
  have total: "sum_Length (p # pre) = unat (Length p) + sum_Length pre"
    by (simp add: sum_Length_def)
  show ?case
    using inside by (simp add: Let_def Cons.IH [OF fits] total add.assoc)
qed

lemma ParseAcpi_loop_nothing_fits:
  assumes "\<forall>p \<in> set Parser. Off + Length p > Len"
  shows "ParseAcpi_loop cfg mem Trace AsciiName Len Parser Ptr Off s =
           (Off, s\<lparr>items := (\<lambda>i. if Some i \<in> ItemPtr ` set Parser then None else items s i)\<rparr>)"
  using assms
proof (induction Parser arbitrary: s)
  case Nil
  then show ?case by simp
next
  case (Cons p Parser)
  then show ?case
    by (cases "ItemPtr p") (auto simp: set_item_def fun_eq_iff intro!: acpi_state.equality)
qed

lemma ParseAcpi_loop_count_mismatch:
  assumes "unat Off + sum_Length Parser \<le> unat Len"
    and "Trace \<longrightarrow> (\<forall>p \<in> set Parser. parser_reports_no_mismatch p)"
  shows "count_mismatch (ConOut (snd (ParseAcpi_loop cfg mem Trace AsciiName Len Parser Ptr Off s))) =
           count_mismatch (ConOut s) +
             (if GetConsistencyChecking cfg then mismatches (unat Off) Parser else 0)"
  using assms
proof (induction Parser arbitrary: Ptr Off s)
  case Nil
  then show ?case by simp
next
  case (Cons p Parser)
  from Cons.prems have bound: "unat Off + unat (Length p) + sum_Length Parser \<le> unat Len"
    by (simp add: sum_Length_def)
  have "unat Len < 2 ^ 32"
    using unsigned_less [of Len] by simp
  with bound have add: "unat (Off + Length p) = unat Off + unat (Length p)"
    by (simp add: unat_add_lem [THEN iffD1])
  with bound have inside: "\<not> Off + Length p > Len"
    by (simp add: word_less_nat_alt)
  from bound add have fits: "unat (Off + Length p) + sum_Length Parser \<le> unat Len"
    by simp
  from Cons.prems have quiet: "Trace \<Longrightarrow> parser_reports_no_mismatch p"
    and rest: "Trace \<longrightarrow> (\<forall>p \<in> set Parser. parser_reports_no_mismatch p)"
    by simp_all
  have differ: "(Off \<noteq> Offset p) = (unat (Offset p) \<noteq> unat Off)"
    by (auto simp: word_unat_eq_iff)
  show ?case
    using inside
    by (simp add: Let_def Cons.IH [OF fits rest] add TraceField_count_mismatch [OF quiet]
          differ)
qed

lemma ParseAcpi_loop_errors_untraced:
  assumes "unat Off + sum_Length Parser \<le> unat Len"
  shows "mTableErrorCount (snd (ParseAcpi_loop cfg mem False AsciiName Len Parser Ptr Off s)) =
           mTableErrorCount s +
             (if GetConsistencyChecking cfg then of_nat (mismatches (unat Off) Parser) else 0)"
  using assms
proof (induction Parser arbitrary: Ptr Off s)
  case Nil
  then show ?case by simp
next
  case (Cons p Parser)
  from Cons.prems have bound: "unat Off + unat (Length p) + sum_Length Parser \<le> unat Len"
    by (simp add: sum_Length_def)
  have "unat Len < 2 ^ 32"
    using unsigned_less [of Len] by simp
  with bound have add: "unat (Off + Length p) = unat Off + unat (Length p)"
    by (simp add: unat_add_lem [THEN iffD1])
  with bound have inside: "\<not> Off + Length p > Len"
    by (simp add: word_less_nat_alt)
  from bound add have fits: "unat (Off + Length p) + sum_Length Parser \<le> unat Len"
    by simp
  have differ: "(Off \<noteq> Offset p) = (unat (Offset p) \<noteq> unat Off)"
    by (auto simp: word_unat_eq_iff)
  show ?case
    using inside
    by (simp add: Let_def Cons.IH [OF fits] add differ)
qed

lemma ParseAcpi_loop_items_untraced:
  assumes "map Length Parser' = map Length Parser"
    and "map ItemPtr Parser' = map ItemPtr Parser"
    and "items s' = items s"
  shows "items (snd (ParseAcpi_loop cfg' mem' False AsciiName' Len Parser' Ptr Off s')) =
         items (snd (ParseAcpi_loop cfg mem False AsciiName Len Parser Ptr Off s))"
  using assms
proof (induction Parser arbitrary: Parser' Ptr Off s s')
  case Nil
  then show ?case by simp
next
  case (Cons p Parser)
  from Cons.prems(1) obtain p' rest where split: "Parser' = p' # rest"
    by (cases Parser') auto
  with Cons.prems have same: "Length p' = Length p" "ItemPtr p' = ItemPtr p"
    and tails: "map Length rest = map Length Parser" "map ItemPtr rest = map ItemPtr Parser"
    by simp_all
  have step: "items (set_item (ItemPtr p) v s') = items (set_item (ItemPtr p) v s)" for v
    using Cons.prems(3) by (simp add: set_item_def split: option.splits)
  show ?case
  proof (cases "Off + Length p > Len")
    case True
    with Cons.IH [OF tails step [of None]] show ?thesis
      unfolding split by (simp add: same)
  next
    case False
    have "items (set_item (ItemPtr p) (Some Ptr) (if GetConsistencyChecking cfg' \<and> Off \<noteq> Offset p'
            then Print (OffsetMismatch AsciiName' (NameStr p') Off (Offset p')) (IncrementErrorCount s')
            else s')) =
          items (set_item (ItemPtr p) (Some Ptr) (if GetConsistencyChecking cfg \<and> Off \<noteq> Offset p
            then Print (OffsetMismatch AsciiName (NameStr p) Off (Offset p)) (IncrementErrorCount s)
            else s))"
      using Cons.prems(3) by (simp add: set_item_def split: option.splits)
    from Cons.IH [OF tails this] False show ?thesis
      unfolding split by (simp add: same Let_def)
  qed
qed

lemma ParseAcpi_header_fields [simp]:
  "gIndent (ParseAcpi_header cfg Trace AsciiName s) = gIndent s"
  "mTableErrorCount (ParseAcpi_header cfg Trace AsciiName s) = mTableErrorCount s"
  "mTableWarningCount (ParseAcpi_header cfg Trace AsciiName s) = mTableWarningCount s"
  "ConOutAttribute (ParseAcpi_header cfg Trace AsciiName s) = ConOutAttribute s"
  "items (ParseAcpi_header cfg Trace AsciiName s) = items s"
  "count_mismatch (ConOut (ParseAcpi_header cfg Trace AsciiName s)) = count_mismatch (ConOut s)"
  by (simp_all add: ParseAcpi_header_def Let_def split: option.splits)

lemma ParseAcpi_header_untraced [simp]:
  "ParseAcpi_header cfg False AsciiName s = s"
  by (simp add: ParseAcpi_header_def split: option.splits)

lemma GicDParser_reports_no_mismatch:
  "\<forall>p \<in> set GicDParser. parser_reports_no_mismatch p"
  by (simp add: GicDParser_def ACPI_PARSER_def parser_reports_no_mismatch_def Dump3Chars_def
        ValidateGICDSystemVectorBase_def)

lemma GicDParser_keeps_gIndent:
  "\<forall>p \<in> set GicDParser. parser_keeps_gIndent p"
  by (simp add: GicDParser_def ACPI_PARSER_def parser_keeps_gIndent_def Dump3Chars_def
        ValidateGICDSystemVectorBase_def)

lemma GicDParser_consistent:
  "consistent 0 GicDParser" "sum_Length GicDParser = 24" "length GicDParser = 8"
  "Offset (GicDParser ! 5) = 16"
  by (simp_all add: GicDParser_def ACPI_PARSER_def sum_Length_def)

text \<open>
  C9. \<open>ParseAcpi\<close> returns with \<open>gIndent\<close> as it found it, for every descriptor list,
  buffer and trace flag; for a traced call this needs the formatters and validators of
  the list, which only a traced call invokes, to return with \<open>gIndent\<close> as they found it.
  A call with \<open>Indent\<close> is a call with indent 0 made in a state whose \<open>gIndent\<close> is larger by
  \<open>Indent\<close>, followed by putting \<open>gIndent\<close> back: the indent is raised for the duration of
  the call and restored before it returns. The same holds for the call made through
  \<open>ParseAcpiStruct\<close>, with a parser function or a descriptor array.
\<close>

theorem ParseAcpi_restores_gIndent:
  assumes "Trace \<longrightarrow> (\<forall>p \<in> set Parser. parser_keeps_gIndent p)"
  shows "gIndent (snd (ParseAcpi cfg mem Trace Indent AsciiName Ptr Len Parser s)) = gIndent s \<and>
         snd (ParseAcpi cfg mem Trace Indent AsciiName Ptr Len Parser s) =
           (snd (ParseAcpi cfg mem Trace 0 AsciiName Ptr Len Parser
                   (s\<lparr>gIndent := gIndent s + Indent\<rparr>)))\<lparr>gIndent := gIndent s\<rparr> \<and>
         fst (ParseAcpi cfg mem Trace Indent AsciiName Ptr Len Parser s) =
           fst (ParseAcpi cfg mem Trace 0 AsciiName Ptr Len Parser (s\<lparr>gIndent := gIndent s + Indent\<rparr>)) \<and>
         (handler_keeps_gIndent (Handler (entry StructDb Ty)) \<longrightarrow>
            gIndent (snd (snd (ParseAcpiStruct cfg mem Indent Ptr StructDb Off Ty Len OptArg0 OptArg1 s))) =
              gIndent s)"
proof -
  note loop = ParseAcpi_loop_gIndent [OF assms]
  have a: "gIndent (snd (ParseAcpi cfg mem Trace Indent AsciiName Ptr Len Parser s)) = gIndent s"
    by (simp add: ParseAcpi_def Let_def loop)
  have b: "snd (ParseAcpi cfg mem Trace Indent AsciiName Ptr Len Parser s) =
           (snd (ParseAcpi cfg mem Trace 0 AsciiName Ptr Len Parser
                   (s\<lparr>gIndent := gIndent s + Indent\<rparr>)))\<lparr>gIndent := gIndent s\<rparr>"
    by (simp add: ParseAcpi_def Let_def loop)
  have c: "fst (ParseAcpi cfg mem Trace Indent AsciiName Ptr Len Parser s) =
           fst (ParseAcpi cfg mem Trace 0 AsciiName Ptr Len Parser (s\<lparr>gIndent := gIndent s + Indent\<rparr>))"
    by (simp add: ParseAcpi_def Let_def)
  have d: "gIndent (snd (snd (ParseAcpiStruct cfg mem Indent Ptr StructDb Off Ty Len OptArg0 OptArg1 s))) =
              gIndent s"
    if h: "handler_keeps_gIndent (Handler (entry StructDb Ty))"
  proof -
    from h have func: "\<And>f cfg mem Ptr Len a0 a1 s. ParserFunc (Handler (entry StructDb Ty)) = Some f \<Longrightarrow>
        gIndent (f cfg mem Ptr Len a0 a1 s) = gIndent s"
      and array: "\<And>arr. ParserArray (Handler (entry StructDb Ty)) = Some arr \<Longrightarrow>
        \<forall>p \<in> set arr. parser_keeps_gIndent p"
      by (simp_all add: handler_keeps_gIndent_def)
    have nested: "\<And>arr n t. ParserArray (Handler (entry StructDb Ty)) = Some arr \<Longrightarrow>
        gIndent (snd (ParseAcpi cfg mem True Indent n Ptr Len arr t)) = gIndent t"
      by (simp add: ParseAcpi_def Let_def ParseAcpi_loop_gIndent array)
    show ?thesis
      by (simp add: ParseAcpiStruct_def Let_def func nested split: option.splits)
  qed
  from a b c d show ?thesis
    by blast
qed

theorem ParseAcpi_restores_gIndent_witness:
  "gIndent (snd (ParseAcpi example_view (\<lambda>a. 0) True 2 (Some (Ascii ''GICD [0]'')) 100 24 GicDParser
                   example_state)) = 0 \<and>
   gIndent (snd (snd (ParseAcpiStruct example_view (\<lambda>a. 0) 2 100 example_db 44 0 24 None None
                        example_state))) = 0"
proof -
  have handler: "handler_keeps_gIndent (Handler (entry example_db 0))"
    using GicDParser_keeps_gIndent
    by (simp add: handler_keeps_gIndent_def entry_def example_db_def)
  have start: "gIndent example_state = 0"
    by (simp add: example_state_def)
  show ?thesis
    using ParseAcpi_restores_gIndent
      [OF impI [OF GicDParser_keeps_gIndent],
       where cfg = example_view and mem = "\<lambda>a. 0" and Trace = True and Indent = 2
         and AsciiName = "Some (Ascii ''GICD [0]'')" and Ptr = 100 and Len = 24
         and s = example_state and StructDb = example_db and Ty = 0 and Off = 44
         and ?OptArg0.0 = None and ?OptArg1.0 = None]
      handler
    by (simp add: start)
qed

lemma consistent_mismatches:
  "consistent off Parser \<Longrightarrow> mismatches off Parser = 0"
  by (induction Parser arbitrary: off) auto

lemma perturb_mismatches:
  assumes "consistent off Parser" and "k < length Parser" and "off' \<noteq> Offset (Parser ! k)"
  shows "mismatches off (perturb k off' Parser) = 1"
  using assms
proof (induction Parser arbitrary: off k)
  case Nil
  then show ?case by simp
next
  case (Cons p Parser)
  show ?case
  proof (cases k)
    case 0
    with Cons.prems show ?thesis
      by (auto simp: perturb_def consistent_mismatches word_unat_eq_iff)
  next
    case (Suc j)
    with Cons.prems have "mismatches (off + unat (Length p)) (perturb j off' Parser) = 1"
      by (intro Cons.IH) simp_all
    with Suc Cons.prems show ?thesis
      by (simp add: perturb_def)
  qed
qed

lemma perturb_map:
  assumes "\<And>p. f (p\<lparr>Offset := off'\<rparr>) = f p"
  shows "map f (perturb k off' Parser) = map f Parser"
proof (cases "k < length Parser")
  case True
  then have "map f (perturb k off' Parser) = (map f Parser)[k := map f Parser ! k]"
    by (simp add: perturb_def map_update assms)
  then show ?thesis
    by simp
next
  case False
  then show ?thesis
    by (simp add: perturb_def list_update_beyond)
qed

lemma perturb_shape [simp]:
  "map Length (perturb k off' Parser) = map Length Parser"
  "map ItemPtr (perturb k off' Parser) = map ItemPtr Parser"
  "sum_Length (perturb k off' Parser) = sum_Length Parser"
proof -
  show l: "map Length (perturb k off' Parser) = map Length Parser"
    by (rule perturb_map) simp
  show "map ItemPtr (perturb k off' Parser) = map ItemPtr Parser"
    by (rule perturb_map) simp
  have "sum_Length (perturb k off' Parser) = sum_list (map unat (map Length (perturb k off' Parser)))"
    by (simp add: sum_Length_def comp_def)
  also have "\<dots> = sum_Length Parser"
    unfolding l by (simp add: sum_Length_def comp_def)
  finally show "sum_Length (perturb k off' Parser) = sum_Length Parser" .
qed

lemma perturb_reports_no_mismatch:
  assumes "Trace \<longrightarrow> (\<forall>p \<in> set Parser. parser_reports_no_mismatch p)"
  shows "Trace \<longrightarrow> (\<forall>p \<in> set (perturb k off' Parser). parser_reports_no_mismatch p)"
proof (intro impI ballI)
  fix p
  assume "Trace"
  with assms have assms: "\<forall>p \<in> set Parser. parser_reports_no_mismatch p"
    by simp
  assume "p \<in> set (perturb k off' Parser)"
  then have "p = (Parser ! k)\<lparr>Offset := off'\<rparr> \<and> k < length Parser \<or> p \<in> set Parser"
    unfolding perturb_def
    by (metis in_set_conv_nth length_list_update nth_list_update_eq nth_list_update_neq)
  moreover have "parser_reports_no_mismatch ((Parser ! k)\<lparr>Offset := off'\<rparr>)" if "k < length Parser"
  proof -
    from that assms have "parser_reports_no_mismatch (Parser ! k)"
      by simp
    then show ?thesis
      by (simp add: parser_reports_no_mismatch_def)
  qed
  ultimately show "parser_reports_no_mismatch p"
    using assms by blast
qed

text \<open>
  C3. For a descriptor list whose declared offsets equal the running sum of the preceding
  field lengths and a buffer at least as long as the sum of all field lengths, \<open>ParseAcpi\<close>
  returns exactly that sum and reports no offset-mismatch error, with consistency checking
  on or off and with or without tracing (in a traced call the formatters and validators
  must print no such error themselves); an untraced call leaves the error counter as it
  was.
\<close>

theorem ParseAcpi_consistent_offsets:
  assumes "consistent 0 Parser"
    and "sum_Length Parser \<le> unat Len"
    and "Trace \<longrightarrow> (\<forall>p \<in> set Parser. parser_reports_no_mismatch p)"
  shows "unat (fst (ParseAcpi cfg mem Trace Indent AsciiName Ptr Len Parser s)) = sum_Length Parser \<and>
         count_mismatch (ConOut (snd (ParseAcpi cfg mem Trace Indent AsciiName Ptr Len Parser s))) =
           count_mismatch (ConOut s) \<and>
         mTableErrorCount (snd (ParseAcpi cfg mem False Indent AsciiName Ptr Len Parser s)) =
           mTableErrorCount s"
proof -
  from assms(2) have fits: "unat (0 :: u32) + sum_Length Parser \<le> unat Len"
    by simp
  from assms(1) have none: "mismatches 0 Parser = 0"
    by (rule consistent_mismatches)
  show ?thesis
    using ParseAcpi_loop_fits [OF fits] ParseAcpi_loop_count_mismatch [OF fits assms(3)]
      ParseAcpi_loop_errors_untraced [OF fits] none
    by (simp add: ParseAcpi_def Let_def)
qed

theorem ParseAcpi_consistent_offsets_witness:
  "consistent 0 GicDParser \<and> sum_Length GicDParser \<le> unat (24 :: u32) \<and>
   unat (fst (ParseAcpi example_view (\<lambda>a. 0) True 2 (Some (Ascii ''GICD [0]'')) 100 24 GicDParser
                example_state)) = 24 \<and>
   count_mismatch (ConOut (snd (ParseAcpi example_view (\<lambda>a. 0) True 2 (Some (Ascii ''GICD [0]''))
                                  100 24 GicDParser example_state))) = 0 \<and>
   mTableErrorCount (snd (ParseAcpi example_view (\<lambda>a. 0) False 2 (Some (Ascii ''GICD [0]''))
                            100 24 GicDParser example_state)) = 0"
proof -
  have fits: "sum_Length GicDParser \<le> unat (24 :: u32)"
    by (simp add: GicDParser_consistent)
  have start: "ConOut example_state = []" "mTableErrorCount example_state = 0"
    by (simp_all add: example_state_def)
  show ?thesis
    using ParseAcpi_consistent_offsets
      [OF GicDParser_consistent(1) fits impI [OF GicDParser_reports_no_mismatch],
       where cfg = example_view and mem = "\<lambda>a. 0" and Trace = True and Indent = 2
         and AsciiName = "Some (Ascii ''GICD [0]'')" and Ptr = 100 and s = example_state]
    by (simp add: GicDParser_consistent start)
qed

text \<open>
  C7. Take a descriptor list with consistent declared offsets, change the declared offset
  of one descriptor to a different value, and parse a buffer that covers all fields. Then
  \<open>ParseAcpi\<close> reports exactly one offset-mismatch error when consistency checking is on
  and none when it is off. Either way decoding goes on at the running offset: the result
  is the sum of the field lengths, and an untraced call stores the same field addresses as
  for the unchanged list, with the error counter raised by one or not at all.
\<close>

theorem ParseAcpi_perturbed_offset:
  assumes "consistent 0 Parser"
    and "k < length Parser"
    and "off' \<noteq> Offset (Parser ! k)"
    and "sum_Length Parser \<le> unat Len"
    and "Trace \<longrightarrow> (\<forall>p \<in> set Parser. parser_reports_no_mismatch p)"
  shows "count_mismatch
           (ConOut (snd (ParseAcpi cfg mem Trace Indent AsciiName Ptr Len (perturb k off' Parser) s))) =
           count_mismatch (ConOut s) + (if GetConsistencyChecking cfg then 1 else 0) \<and>
         unat (fst (ParseAcpi cfg mem Trace Indent AsciiName Ptr Len (perturb k off' Parser) s)) =
           sum_Length Parser \<and>
         mTableErrorCount
           (snd (ParseAcpi cfg mem False Indent AsciiName Ptr Len (perturb k off' Parser) s)) =
           mTableErrorCount s + (if GetConsistencyChecking cfg then 1 else 0) \<and>
         items (snd (ParseAcpi cfg mem False Indent AsciiName Ptr Len (perturb k off' Parser) s)) =
           items (snd (ParseAcpi cfg mem False Indent AsciiName Ptr Len Parser s))"
proof -
  from assms(4) have fits: "unat (0 :: u32) + sum_Length (perturb k off' Parser) \<le> unat Len"
    by simp
  from assms(1-3) have one: "mismatches 0 (perturb k off' Parser) = 1"
    by (rule perturb_mismatches)
  note quiet = perturb_reports_no_mismatch [OF assms(5), of k off']
  have same: "items (snd (ParseAcpi_loop cfg mem False AsciiName Len (perturb k off' Parser) Ptr 0
                            (s\<lparr>gIndent := gIndent s + Indent\<rparr>))) =
              items (snd (ParseAcpi_loop cfg mem False AsciiName Len Parser Ptr 0
                            (s\<lparr>gIndent := gIndent s + Indent\<rparr>)))"
    by (rule ParseAcpi_loop_items_untraced) simp_all
  show ?thesis
    using ParseAcpi_loop_fits [OF fits] ParseAcpi_loop_count_mismatch [OF fits quiet]
      ParseAcpi_loop_errors_untraced [OF fits] one same
    by (simp add: ParseAcpi_def Let_def)
qed

theorem ParseAcpi_perturbed_offset_witness:
  "consistent 0 GicDParser \<and> 5 < length GicDParser \<and> 17 \<noteq> Offset (GicDParser ! 5) \<and>
   sum_Length GicDParser \<le> unat (24 :: u32) \<and>
   count_mismatch (ConOut (snd (ParseAcpi example_view (\<lambda>a. 0) True 2 (Some (Ascii ''GICD [0]''))
                                  100 24 (perturb 5 17 GicDParser) example_state))) = 1 \<and>
   unat (fst (ParseAcpi example_view (\<lambda>a. 0) True 2 (Some (Ascii ''GICD [0]'')) 100 24
                (perturb 5 17 GicDParser) example_state)) = 24 \<and>
   mTableErrorCount (snd (ParseAcpi example_view (\<lambda>a. 0) False 2 (Some (Ascii ''GICD [0]''))
                            100 24 (perturb 5 17 GicDParser) example_state)) = 1"
proof -
  have fits: "sum_Length GicDParser \<le> unat (24 :: u32)"
    by (simp add: GicDParser_consistent)
  have k: "5 < length GicDParser"
    by (simp add: GicDParser_consistent)
  have differ: "17 \<noteq> Offset (GicDParser ! 5)"
    by (simp add: GicDParser_consistent)
  have start: "ConOut example_state = []" "mTableErrorCount example_state = 0"
    "GetConsistencyChecking example_view"
    by (simp_all add: example_state_def example_view_def)
  show ?thesis
    using ParseAcpi_perturbed_offset
      [OF GicDParser_consistent(1) k differ fits impI [OF GicDParser_reports_no_mismatch],
       where cfg = example_view and mem = "\<lambda>a. 0" and Trace = True and Indent = 2
         and AsciiName = "Some (Ascii ''GICD [0]'')" and Ptr = 100 and s = example_state]
    by (simp add: GicDParser_consistent start)
qed

subsection \<open>The sub-record walkers\<close>

lemma ParseAcpi_untraced_unnamed:
  "ParseAcpi cfg mem False 0 None Ptr Len Parser s =
     ParseAcpi_loop cfg mem False None Len Parser Ptr 0 s"
  by (simp add: ParseAcpi_def Let_def)

lemma header_lookahead:
  assumes "2 \<le> Len"
    and "Parser =
      [ACPI_PARSER n0 1 0 None None (Some ty) None None,
       ACPI_PARSER n1 1 1 None None (Some ln) None None,
       ACPI_PARSER n2 2 2 None None None None None]"
  shows "snd (ParseAcpi cfg mem False 0 None Ptr Len Parser s) =
           s\<lparr>items := (items s)(ty := Some Ptr, ln := Some (Ptr + 1))\<rparr>"
proof -
  from assms(1) have one: "\<not> Len < 1" and two: "\<not> Len < 2"
    by unat_arith+
  show ?thesis
    unfolding ParseAcpi_untraced_unnamed assms(2)
    using one two by (simp add: ACPI_PARSER_def set_item_def Let_def)
qed

text \<open>
  C8. In the loops of \<open>ParseAcpiMadt\<close> and \<open>ParseAcpiPptt\<close>: when the sub-record at the current
  offset has its length byte inside the table and declares a length of zero, or a length
  with \<open>Offset + Length > AcpiTableLength\<close> (the \<open>UINT32\<close> sum the source computes), the loop
  returns at once. The state on return is the state after the header look-ahead with the
  error counter raised by one and one invalid-length error printed; the database is
  unchanged and nothing was dispatched (the flag \<open>False\<close> says that the function returns
  from inside the loop, so the count validation after the loop is skipped as well).
\<close>

theorem walker_invalid_length:
  assumes "Off < AcpiTableLength"
    and "2 \<le> AcpiTableLength - Off"
    and "mem (Ptr + 1) = 0 \<or> Off + ucast (mem (Ptr + 1)) > AcpiTableLength"
  shows "ParseAcpiMadt_loop cfg mem AcpiTableLength Ptr Off StructDb s =
           Some (False, StructDb,
                 Print (InvalidLength (Name StructDb) (mem (Ptr + 1)) Off AcpiTableLength)
                   (IncrementErrorCount
                      (s\<lparr>items := (items s)
                           (MadtInterruptControllerType := Some Ptr,
                            MadtInterruptControllerLength := Some (Ptr + 1))\<rparr>))) \<and>
         ParseAcpiPptt_loop cfg mem AcpiTableLength Ptr Off StructDb s =
           Some (False, StructDb,
                 Print (InvalidLength (Name StructDb) (mem (Ptr + 1)) Off AcpiTableLength)
                   (IncrementErrorCount
                      (s\<lparr>items := (items s)
                           (ProcessorTopologyStructureType := Some Ptr,
                            ProcessorTopologyStructureLength := Some (Ptr + 1))\<rparr>)))"
proof -
  note madt = header_lookahead [OF assms(2) MadtInterruptControllerHeaderParser_def]
  note pptt = header_lookahead [OF assms(2) ProcessorTopologyStructureHeaderParser_def]
  have m: "ParseAcpiMadt_loop cfg mem AcpiTableLength Ptr Off StructDb s =
           Some (False, StructDb,
                 Print (InvalidLength (Name StructDb) (mem (Ptr + 1)) Off AcpiTableLength)
                   (IncrementErrorCount
                      (s\<lparr>items := (items s)
                           (MadtInterruptControllerType := Some Ptr,
                            MadtInterruptControllerLength := Some (Ptr + 1))\<rparr>)))"
    using assms(1,3) by (subst ParseAcpiMadt_loop.simps) (auto simp: madt Let_def)
  have p: "ParseAcpiPptt_loop cfg mem AcpiTableLength Ptr Off StructDb s =
           Some (False, StructDb,
                 Print (InvalidLength (Name StructDb) (mem (Ptr + 1)) Off AcpiTableLength)
                   (IncrementErrorCount
                      (s\<lparr>items := (items s)
                           (ProcessorTopologyStructureType := Some Ptr,
                            ProcessorTopologyStructureLength := Some (Ptr + 1))\<rparr>)))"
    using assms(1,3) by (subst ParseAcpiPptt_loop.simps) (auto simp: pptt Let_def)
  from m p show ?thesis ..
qed

theorem walker_invalid_length_witness:
  "(44 :: u32) < 60 \<and> (2 :: u32) \<le> 60 - 44 \<and>
   map_option (\<lambda>r. (fst r, fst (snd r) = example_db, mTableErrorCount (snd (snd r)), ConOut (snd (snd r))))
     (ParseAcpiMadt_loop example_view (\<lambda>a. 0) 60 44 44 example_db example_state) =
     Some (False, True, 1, [InvalidLength ''Example Structure'' 0 44 60]) \<and>
   map_option (\<lambda>r. (fst r, fst (snd r) = example_db, mTableErrorCount (snd (snd r)), ConOut (snd (snd r))))
     (ParseAcpiPptt_loop example_view (\<lambda>a. 0) 60 44 44 example_db example_state) =
     Some (False, True, 1, [InvalidLength ''Example Structure'' 0 44 60])"
proof -
  have a: "(44 :: u32) < 60" and b: "(2 :: u32) \<le> 60 - 44"
    by simp_all
  have c: "(\<lambda>a. 0 :: u8) (44 + 1) = 0 \<or> 44 + ucast ((\<lambda>a. 0 :: u8) (44 + 1)) > (60 :: u32)"
    by simp
  have start: "ConOut example_state = []" "mTableErrorCount example_state = 0"
    "Name example_db = ''Example Structure''"
    by (simp_all add: example_state_def example_db_def)
  show ?thesis
    using a b walker_invalid_length [OF a b c, where cfg = example_view and StructDb = example_db
        and s = example_state]
    by (simp add: start)
qed

subsection \<open>ParseAcpi: validators\<close>

text \<open>
  C2, as stated, fails: with tracing and consistency checking on, a field inside the
  buffer whose descriptor has both a formatter and a validator is printed by the formatter
  and the validator is not called. Here the validator would report an error on the data
  (the error counter would become 1), and after \<open>ParseAcpi\<close> the counter is still 0 and
  nothing but the field name, the formatter's output and the line break was printed.
\<close>

theorem ParseAcpi_formatter_skips_validator:
  "GetConsistencyChecking example_view \<and>
   FieldValidator formatted_field = Some ValidateGICDSystemVectorBase \<and>
   mTableErrorCount (ValidateGICDSystemVectorBase example_view (\<lambda>a. 1) 100 None example_state) = 1 \<and>
   fst (ParseAcpi example_view (\<lambda>a. 1) True 0 None 100 4 [formatted_field] example_state) = 4 \<and>
   mTableErrorCount
     (snd (ParseAcpi example_view (\<lambda>a. 1) True 0 None 100 4 [formatted_field] example_state)) = 0 \<and>
   ConOut (snd (ParseAcpi example_view (\<lambda>a. 1) True 0 None 100 4 [formatted_field] example_state)) =
     [FieldLabel 2 34 (Some ''System Vector Base''), DumpChars ''%x %x %x'' [1, 1, 1], NewLine]"
  by (simp add: ParseAcpi_def ParseAcpi_header_def TraceField_def PrintFieldName_def Dump3Chars_def
        ValidateGICDSystemVectorBase_def read_UINT32_def read_UINT16_def formatted_field_def
        ACPI_PARSER_def example_view_def example_state_def Let_def)

text \<open>
  C2, amended. With tracing and consistency checking on, take a field whose descriptor
  \<open>p\<close> has a validator and which lies inside the buffer together with the fields \<open>pre\<close>
  before it. The loop of \<open>ParseAcpi\<close> decodes \<open>pre\<close>, checks the offset of \<open>p\<close>, traces \<open>p\<close>
  at \<open>Ptr\<close> plus the lengths of \<open>pre\<close> with \<open>TraceField\<close>, captures it and goes on with the
  fields \<open>post\<close>; and in \<open>TraceField\<close>:
  \<^item> when the descriptor has no formatter and has a format, the validator is called after
    the field is rendered, whatever the field's length: after the value for the lengths
    1, 2, 4 and 8, and after the cannot-parse message for every other length;
  \<^item> when the descriptor has a formatter, the formatter prints the field and the validator
    is not called;
  \<^item> when the descriptor has neither, only the field name is printed and the validator is
    not called.
\<close>

theorem ParseAcpi_field_validator:
  assumes "GetConsistencyChecking cfg"
    and "FieldValidator p = Some validator"
    and "sum_Length pre + unat (Length p) \<le> unat Len"
  shows "ParseAcpi_loop cfg mem True AsciiName Len (pre @ p # post) Ptr 0 s =
           ParseAcpi_loop cfg mem True AsciiName Len post
             (Ptr + sum_Length pre + unat (Length p)) (of_nat (sum_Length pre) + Length p)
             (set_item (ItemPtr p) (Some (Ptr + sum_Length pre))
                (TraceField cfg mem AsciiName (Ptr + sum_Length pre) p
                   (if of_nat (sum_Length pre) \<noteq> Offset p
                    then Print (OffsetMismatch AsciiName (NameStr p) (of_nat (sum_Length pre))
                                  (Offset p))
                           (IncrementErrorCount
                              (snd (ParseAcpi_loop cfg mem True AsciiName Len pre Ptr 0 s)))
                    else snd (ParseAcpi_loop cfg mem True AsciiName Len pre Ptr 0 s)))) \<and>
         (PrintFormatter p = None \<and> Format p = Some fmt \<longrightarrow>
            TraceField cfg mem AsciiName P p t =
              Print NewLine
                (validator cfg mem P (Context p)
                   (if Length p = 1 then DumpUint8 fmt mem P (PrintFieldName cfg 2 (NameStr p) t)
                    else if Length p = 2 then DumpUint16 fmt mem P (PrintFieldName cfg 2 (NameStr p) t)
                    else if Length p = 4 then DumpUint32 fmt mem P (PrintFieldName cfg 2 (NameStr p) t)
                    else if Length p = 8 then DumpUint64 fmt mem P (PrintFieldName cfg 2 (NameStr p) t)
                    else Print (CannotParse AsciiName (Length p))
                           (PrintFieldName cfg 2 (NameStr p) t)))) \<and>
         (PrintFormatter p = Some formatter \<longrightarrow>
            TraceField cfg mem AsciiName P p t =
              Print NewLine (formatter cfg mem (Format p) P (PrintFieldName cfg 2 (NameStr p) t))) \<and>
         (PrintFormatter p = None \<and> Format p = None \<longrightarrow>
            TraceField cfg mem AsciiName P p t =
              Print NewLine (PrintFieldName cfg 2 (NameStr p) t))"
proof -
  from assms(3) have fits: "unat (0 :: u32) + sum_Length pre \<le> unat Len"
    by simp
  have "unat Len < 2 ^ 32"
    using unsigned_less [of Len] by simp
  with assms(3) have off: "unat (of_nat (sum_Length pre) :: u32) = sum_Length pre"
    by (simp add: unat_of_nat)
  with assms(3) \<open>unat Len < 2 ^ 32\<close>
  have "unat ((of_nat (sum_Length pre) :: u32) + Length p) = sum_Length pre + unat (Length p)"
    by (simp add: unat_add_lem [THEN iffD1])
  with assms(3) have inside: "\<not> (of_nat (sum_Length pre) :: u32) + Length p > Len"
    by (simp add: word_less_nat_alt)
  have step: "ParseAcpi_loop cfg mem True AsciiName Len (pre @ p # post) Ptr 0 s =
           ParseAcpi_loop cfg mem True AsciiName Len post
             (Ptr + sum_Length pre + unat (Length p)) (of_nat (sum_Length pre) + Length p)
             (set_item (ItemPtr p) (Some (Ptr + sum_Length pre))
                (TraceField cfg mem AsciiName (Ptr + sum_Length pre) p
                   (if of_nat (sum_Length pre) \<noteq> Offset p
                    then Print (OffsetMismatch AsciiName (NameStr p) (of_nat (sum_Length pre))
                                  (Offset p))
                           (IncrementErrorCount
                              (snd (ParseAcpi_loop cfg mem True AsciiName Len pre Ptr 0 s)))
                    else snd (ParseAcpi_loop cfg mem True AsciiName Len pre Ptr 0 s))))"
    unfolding ParseAcpi_loop_append [OF fits]
    using inside assms(1) by (simp add: Let_def)
  have field: "(PrintFormatter p = None \<and> Format p = Some fmt \<longrightarrow>
            TraceField cfg mem AsciiName P p t =
              Print NewLine
                (validator cfg mem P (Context p)
                   (if Length p = 1 then DumpUint8 fmt mem P (PrintFieldName cfg 2 (NameStr p) t)
                    else if Length p = 2 then DumpUint16 fmt mem P (PrintFieldName cfg 2 (NameStr p) t)
                    else if Length p = 4 then DumpUint32 fmt mem P (PrintFieldName cfg 2 (NameStr p) t)
                    else if Length p = 8 then DumpUint64 fmt mem P (PrintFieldName cfg 2 (NameStr p) t)
                    else Print (CannotParse AsciiName (Length p))
                           (PrintFieldName cfg 2 (NameStr p) t)))) \<and>
         (PrintFormatter p = Some formatter \<longrightarrow>
            TraceField cfg mem AsciiName P p t =
              Print NewLine (formatter cfg mem (Format p) P (PrintFieldName cfg 2 (NameStr p) t))) \<and>
         (PrintFormatter p = None \<and> Format p = None \<longrightarrow>
            TraceField cfg mem AsciiName P p t =
              Print NewLine (PrintFieldName cfg 2 (NameStr p) t))"
    using assms(1,2) by (simp add: TraceField_def Let_def)
  from step field show ?thesis ..
qed

theorem ParseAcpi_field_validator_witness:
  "GetConsistencyChecking example_view \<and>
   FieldValidator (GicDParser ! 5) = Some ValidateGICDSystemVectorBase \<and>
   sum_Length (take 5 GicDParser) + unat (Length (GicDParser ! 5)) \<le> unat (24 :: u32) \<and>
   mTableErrorCount (TraceField example_view (\<lambda>a. 1) None 116 (GicDParser ! 5) example_state) = 1 \<and>
   ConOut (TraceField example_view (\<lambda>a. 1) None 116 (GicDParser ! 5) example_state) =
     [FieldLabel 2 34 (Some ''System Vector Base''), DumpValue ''0x%x'' 16843009,
      Message ''ERROR: System Vector Base must be zero.'', NewLine]"
proof -
  have chk: "GetConsistencyChecking example_view"
    by (simp add: example_view_def)
  have row: "GicDParser ! 5 =
      ACPI_PARSER (Some ''System Vector Base'') 4 16 (Some ''0x%x'') None None
        (Some ValidateGICDSystemVectorBase) None"
    by (simp add: GicDParser_def)
  have v: "FieldValidator (GicDParser ! 5) = Some ValidateGICDSystemVectorBase"
    by (simp add: row ACPI_PARSER_def)
  have fields: "PrintFormatter (GicDParser ! 5) = None" "Format (GicDParser ! 5) = Some ''0x%x''"
    "Length (GicDParser ! 5) = 4" "NameStr (GicDParser ! 5) = Some ''System Vector Base''"
    "Context (GicDParser ! 5) = None"
    by (simp_all add: row ACPI_PARSER_def)
  have fits: "sum_Length (take 5 GicDParser) + unat (Length (GicDParser ! 5)) \<le> unat (24 :: u32)"
    by (simp add: fields) (simp add: GicDParser_def ACPI_PARSER_def sum_Length_def)
  show ?thesis
    using chk v fits
      ParseAcpi_field_validator [OF chk v fits, where fmt = "''0x%x''" and mem = "\<lambda>a. 1"
        and P = 116 and AsciiName = None and t = example_state]
    by (simp add: fields DumpUint32_def PrintFieldName_def ValidateGICDSystemVectorBase_def
          read_UINT32_def read_UINT16_def example_view_def example_state_def)
qed

subsection \<open>ParseAcpi: truncated buffers\<close>

text \<open>
  Where truncation is handled as intended: when the fields \<open>pre\<close> fit in the buffer and
  none of the later fields \<open>post\<close> fits in the bytes left after them, \<open>ParseAcpi\<close> decodes
  \<open>pre\<close> as it would on its own, resets the pointer variable of every field of \<open>post\<close> and
  returns the sum of the lengths of \<open>pre\<close>.
\<close>

lemma ParseAcpi_truncated_nothing_later_fits:
  assumes "sum_Length pre \<le> unat Len"
    and "\<forall>p \<in> set post. unat Len < sum_Length pre + unat (Length p)"
    and "\<forall>p \<in> set post. sum_Length pre + unat (Length p) < 2 ^ 32"
  shows "unat (fst (ParseAcpi cfg mem Trace Indent AsciiName Ptr Len (pre @ post) s)) = sum_Length pre \<and>
         snd (ParseAcpi cfg mem Trace Indent AsciiName Ptr Len (pre @ post) s) =
           (snd (ParseAcpi cfg mem Trace Indent AsciiName Ptr Len pre s))
             \<lparr>items := (\<lambda>i. if Some i \<in> ItemPtr ` set post then None
                             else items (snd (ParseAcpi cfg mem Trace Indent AsciiName Ptr Len pre s)) i)\<rparr>"
proof -
  from assms(1) have fits: "unat (0 :: u32) + sum_Length pre \<le> unat Len"
    by simp
  have "unat Len < 2 ^ 32"
    using unsigned_less [of Len] by simp
  with assms(1) have small: "sum_Length pre < 2 ^ 32"
    by simp
  then have off: "unat (of_nat (sum_Length pre) :: u32) = sum_Length pre"
    by (simp add: unat_of_nat)
  have nofit: "\<forall>p \<in> set post. (of_nat (sum_Length pre) :: u32) + Length p > Len"
  proof
    fix p
    assume p: "p \<in> set post"
    with assms(3) have "sum_Length pre + unat (Length p) < 2 ^ 32"
      by simp
    then have "unat ((of_nat (sum_Length pre) :: u32) + Length p) = sum_Length pre + unat (Length p)"
      using off by (simp add: unat_add_lem [THEN iffD1])
    with assms(2) p show "(of_nat (sum_Length pre) :: u32) + Length p > Len"
      by (simp add: word_less_nat_alt)
  qed
  have whole: "ParseAcpi_loop cfg mem Trace AsciiName Len (pre @ post) Ptr 0 t =
      (of_nat (sum_Length pre),
       (snd (ParseAcpi_loop cfg mem Trace AsciiName Len pre Ptr 0 t))
         \<lparr>items := (\<lambda>i. if Some i \<in> ItemPtr ` set post then None
                         else items (snd (ParseAcpi_loop cfg mem Trace AsciiName Len pre Ptr 0 t)) i)\<rparr>)"
    for t
    using ParseAcpi_loop_append [OF fits, where post = post and cfg = cfg and mem = mem
        and Trace = Trace and AsciiName = AsciiName and Ptr = Ptr and s = t]
      ParseAcpi_loop_nothing_fits [OF nofit, where cfg = cfg and mem = mem
        and Trace = Trace and AsciiName = AsciiName and Ptr = "Ptr + sum_Length pre"
        and s = "snd (ParseAcpi_loop cfg mem Trace AsciiName Len pre Ptr 0 t)"]
    by simp
  show ?thesis
    by (auto simp: ParseAcpi_def Let_def whole off intro!: acpi_state.equality)
qed

text \<open>
  C1, evaluated where the code departs from it. The first three header fields (4, 4 and 1
  bytes at offsets 0, 4 and 8) are parsed from a buffer truncated to 7 bytes, which ends
  strictly inside the second field. The first field is captured and the second is reset,
  but the third, which lies beyond the buffer, is not reset: it fits after the running
  offset 4, so it is captured at address \<open>Ptr + 4\<close> (inside the second field), an offset
  mismatch is reported, and the result is 5 rather than 4. Likewise a GICD structure
  truncated to 12 bytes (inside \<open>Physical Base Address\<close>, bytes 8 to 15) yields 12, not 8:
  \<open>System Vector Base\<close> is decoded from bytes 8 to 11.
\<close>

theorem ParseAcpi_truncated_decodes_later_field:
  "fst (ParseAcpi example_view (\<lambda>a. 0) False 0 None 100 7 header_prefix example_state) = 5 \<and>
   items (snd (ParseAcpi example_view (\<lambda>a. 0) False 0 None 100 7 header_prefix example_state)) (Item 0) =
     Some 100 \<and>
   items (snd (ParseAcpi example_view (\<lambda>a. 0) False 0 None 100 7 header_prefix example_state)) (Item 1) =
     None \<and>
   items (snd (ParseAcpi example_view (\<lambda>a. 0) False 0 None 100 7 header_prefix example_state)) (Item 2) =
     Some 104 \<and>
   ConOut (snd (ParseAcpi example_view (\<lambda>a. 0) False 0 None 100 7 header_prefix example_state)) =
     [OffsetMismatch None (Some ''Revision'') 4 8] \<and>
   fst (ParseAcpi example_view (\<lambda>a. 0) True 2 (Some (Ascii ''GICD [0]'')) 100 12 GicDParser example_state) = 12"
  by (simp add: ParseAcpi_def header_prefix_def GicDParser_def ACPI_PARSER_def set_item_def
        example_view_def example_state_def Let_def)

end
